theory Spec2Isabelle
  imports Main
begin

section \<open>Python built-ins used by the codec\<close>

text \<open>
  The module \<^verbatim>\<open>py1090/message.py\<close> decodes one line of the BaseStation format into a
  \<^verbatim>\<open>Message\<close> and encodes it back. It relies on a handful of Python built-ins
  (\<^verbatim>\<open>str.strip\<close>, \<^verbatim>\<open>str.split\<close>, \<^verbatim>\<open>str.upper\<close>, \<^verbatim>\<open>int\<close>, \<^verbatim>\<open>float\<close>,
  \<^verbatim>\<open>datetime.strptime\<close>, ...). They are modelled here, from CPython's behaviour, on
  ASCII text: a line is a \<^typ>\<open>string\<close>, and a character outside ASCII is an ordinary
  character that is neither white space, nor a digit, nor a cased letter.
\<close>

subsection \<open>Characters and strings\<close>

definition is_digit :: "char \<Rightarrow> bool" where
  "is_digit c = (c \<in> set ''0123456789'')"

definition digit_val :: "char \<Rightarrow> nat" where
  "digit_val c =
     (case map_of (zip ''0123456789'' [0, 1, 2, 3, 4, 5, 6, 7, 8, 9]) c of
        None \<Rightarrow> 0
      | Some d \<Rightarrow> d)"

definition digit_char :: "nat \<Rightarrow> char" where
  "digit_char d = ''0123456789'' ! d"

text \<open>White space as \<^verbatim>\<open>str.strip()\<close> sees it: tab, line feed, vertical tab, form feed,
  carriage return, the four separators 0x1c..0x1f and the space.\<close>

definition is_space :: "char \<Rightarrow> bool" where
  "is_space c =
     (c \<in> set [CHR 0x09, CHR 0x0A, CHR 0x0B, CHR 0x0C, CHR 0x0D,
                CHR 0x1C, CHR 0x1D, CHR 0x1E, CHR 0x1F, CHR 0x20])"

text \<open>White space as \<^verbatim>\<open>int()\<close> and \<^verbatim>\<open>float()\<close> skip it around a number: the C locale's
  \<^verbatim>\<open>isspace\<close>, which does not hold of 0x1c..0x1f.\<close>

definition is_num_space :: "char \<Rightarrow> bool" where
  "is_num_space c = (c \<in> set [CHR 0x09, CHR 0x0A, CHR 0x0B, CHR 0x0C, CHR 0x0D, CHR 0x20])"

definition strip_with :: "(char \<Rightarrow> bool) \<Rightarrow> string \<Rightarrow> string" where
  "strip_with sp s = rev (dropWhile sp (rev (dropWhile sp s)))"

definition strip :: "string \<Rightarrow> string" where
  "strip s = strip_with is_space s"

text \<open>\<^verbatim>\<open>s.split(sep)\<close> for a one-character separator: never the empty list.\<close>

fun split :: "char \<Rightarrow> string \<Rightarrow> string list" where
  "split sep [] = [[]]"
| "split sep (c # cs) =
     (if c = sep then [] # split sep cs
      else (case split sep cs of
              [] \<Rightarrow> [[c]]
            | p # ps \<Rightarrow> (c # p) # ps))"

text \<open>\<^verbatim>\<open>sep.join(xs)\<close>.\<close>

fun join :: "string \<Rightarrow> string list \<Rightarrow> string" where
  "join sep [] = []"
| "join sep [x] = x"
| "join sep (x # y # ys) = x @ sep @ join sep (y # ys)"

text \<open>\<^verbatim>\<open>s.rpartition('.')\<close>: the text before the last dot, the dot, the text after it; with
  no dot in \<open>s\<close>, two empty strings and \<open>s\<close>.\<close>

definition rpartition_dot :: "string \<Rightarrow> string \<times> string \<times> string" where
  "rpartition_dot s =
     (let after = rev (takeWhile (\<lambda>c. c \<noteq> CHR ''.'') (rev s));
          rest = dropWhile (\<lambda>c. c \<noteq> CHR ''.'') (rev s)
      in (case rest of
            [] \<Rightarrow> ([], [], s)
          | d # front \<Rightarrow> (rev front, [d], after)))"

definition upper_char :: "char \<Rightarrow> char" where
  "upper_char c =
     (case map_of (zip ''abcdefghijklmnopqrstuvwxyz'' ''ABCDEFGHIJKLMNOPQRSTUVWXYZ'') c of
        None \<Rightarrow> c
      | Some u \<Rightarrow> u)"

definition lower_char :: "char \<Rightarrow> char" where
  "lower_char c =
     (case map_of (zip ''ABCDEFGHIJKLMNOPQRSTUVWXYZ'' ''abcdefghijklmnopqrstuvwxyz'') c of
        None \<Rightarrow> c
      | Some l \<Rightarrow> l)"

definition upper :: "string \<Rightarrow> string" where
  "upper s = map upper_char s"

definition lower :: "string \<Rightarrow> string" where
  "lower s = map lower_char s"

subsection \<open>Integers: \<^verbatim>\<open>int(s)\<close> and \<^verbatim>\<open>str(n)\<close>\<close>

text \<open>Python's exceptions, as far as this module can raise them.\<close>

datatype error = IndexError | ValueError | OverflowError

text \<open>A run of decimal digits in which single underscores may stand between two digits.
  \<open>digits_acc\<close> reads the run with the value so far in \<open>a\<close>.\<close>

fun digits_acc :: "nat \<Rightarrow> string \<Rightarrow> nat option" where
  "digits_acc a [] = Some a"
| "digits_acc a (c # cs) =
     (if is_digit c then digits_acc (10 * a + digit_val c) cs
      else if c = CHR ''_'' then
        (case cs of
           [] \<Rightarrow> None
         | d # ds \<Rightarrow> if is_digit d then digits_acc a cs else None)
      else None)"

definition digits_us :: "string \<Rightarrow> nat option" where
  "digits_us s =
     (case s of
        [] \<Rightarrow> None
      | c # cs \<Rightarrow> if is_digit c then digits_acc 0 s else None)"

text \<open>\<^verbatim>\<open>int(s)\<close> in base ten: white space around, an optional sign, digits. \<open>None\<close> stands
  for the \<^verbatim>\<open>ValueError\<close> of text that is no integer. (The limit that recent CPython
  versions put on the number of digits is not modelled.)\<close>

definition py_int :: "string \<Rightarrow> int option" where
  "py_int s =
     (case strip_with is_num_space s of
        [] \<Rightarrow> None
      | c # cs \<Rightarrow>
          if c = CHR ''-'' then map_option (\<lambda>n. - int n) (digits_us cs)
          else if c = CHR ''+'' then map_option int (digits_us cs)
          else map_option int (digits_us (c # cs)))"

fun str_nat :: "nat \<Rightarrow> string" where
  "str_nat n = (if n < 10 then [digit_char n] else str_nat (n div 10) @ [digit_char (n mod 10)])"

declare str_nat.simps [simp del]

definition str_int :: "int \<Rightarrow> string" where
  "str_int i = (if i < 0 then CHR ''-'' # str_nat (nat (- i)) else str_nat (nat i))"

text \<open>\<^verbatim>\<open>'{:0wd}'.format(n)\<close> for a natural number: at least \<open>w\<close> digits, zeros in front.\<close>

definition zfill :: "nat \<Rightarrow> nat \<Rightarrow> string" where
  "zfill w n = replicate (w - length (str_nat n)) CHR ''0'' @ str_nat n"

subsection \<open>Floats: \<^verbatim>\<open>float(s)\<close>, \<^verbatim>\<open>str(x)\<close> and \<^verbatim>\<open>'{:.5f}'.format(x)\<close>\<close>

text \<open>A Python float is an IEEE 754 double: \<open>Finite s m e\<close> is the number \<open>m * 2 ^ e\<close>,
  negated when \<open>s\<close> holds, with \<open>m < 2 ^ 53\<close> and \<open>-1074 \<le> e \<le> 971\<close>, the mantissa of
  a normal number being at least \<open>2 ^ 52\<close>; zero is \<open>Finite s 0 0\<close>. All arithmetic on it
  is exact integer arithmetic followed by one rounding to nearest, ties to even.\<close>

datatype pyfloat = Finite bool nat int | Infinity bool | NaN

fun bitlen :: "nat \<Rightarrow> nat" where
  "bitlen n = (if n = 0 then 0 else Suc (bitlen (n div 2)))"

declare bitlen.simps [simp del]

text \<open>\<open>a / b\<close> rounded to the nearest natural number, a tie to the even one.\<close>

definition rhe_div :: "nat \<Rightarrow> nat \<Rightarrow> nat" where
  "rhe_div a b =
     (let q = a div b; r = a mod b
      in if 2 * r < b then q else if b < 2 * r then q + 1 else if even q then q else q + 1)"

text \<open>Numerator and denominator of \<open>p / (q * 2 ^ e)\<close>.\<close>

definition scaled2 :: "nat \<Rightarrow> nat \<Rightarrow> int \<Rightarrow> nat \<times> nat" where
  "scaled2 p q e = (if 0 \<le> e then (p, q * 2 ^ nat e) else (p * 2 ^ nat (- e), q))"

text \<open>Numerator and denominator of \<open>p / (q * 10 ^ k)\<close>.\<close>

definition scaled10 :: "nat \<Rightarrow> nat \<Rightarrow> int \<Rightarrow> nat \<times> nat" where
  "scaled10 p q k = (if 0 \<le> k then (p, q * 10 ^ nat k) else (p * 10 ^ nat (- k), q))"

text \<open>The double nearest to \<open>p / q\<close>, with sign \<open>s\<close>.\<close>

definition round_ratio :: "bool \<Rightarrow> nat \<Rightarrow> nat \<Rightarrow> pyfloat" where
  "round_ratio s p q =
     (if p = 0 then Finite s 0 0
      else
        let e0 = int (bitlen p) - int (bitlen q) - 53;
            ab0 = scaled2 p q e0;
            e1 = (if 2 ^ 53 \<le> fst ab0 div snd ab0 then e0 + 1 else e0);
            e = max e1 (- 1074);
            ab = scaled2 p q e;
            m = rhe_div (fst ab) (snd ab)
        in if m = 0 then Finite s 0 0
           else if m = 2 ^ 53 then (if 971 < e + 1 then Infinity s else Finite s (2 ^ 52) (e + 1))
           else if 971 < e then Infinity s
           else Finite s m e)"

text \<open>Underscores in a numeric literal: each one between two digits. \<open>drop_underscores\<close>
  removes them, with the previous character in \<open>prev\<close>.\<close>

fun drop_underscores :: "char \<Rightarrow> string \<Rightarrow> string option" where
  "drop_underscores prev [] = (if prev = CHR ''_'' then None else Some [])"
| "drop_underscores prev (c # cs) =
     (if c = CHR ''_'' then (if is_digit prev then drop_underscores c cs else None)
      else if prev = CHR ''_'' \<and> \<not> is_digit c then None
      else map_option ((#) c) (drop_underscores c cs))"

definition nat_of_digits :: "string \<Rightarrow> nat" where
  "nat_of_digits ds = foldl (\<lambda>a c. 10 * a + digit_val c) 0 ds"

definition all_digits :: "string \<Rightarrow> nat option" where
  "all_digits ds = (if ds \<noteq> [] \<and> list_all is_digit ds then Some (nat_of_digits ds) else None)"

definition parse_exp :: "string \<Rightarrow> int option" where
  "parse_exp s =
     (case s of
        [] \<Rightarrow> None
      | c # cs \<Rightarrow>
          if c = CHR ''-'' then map_option (\<lambda>n. - int n) (all_digits cs)
          else if c = CHR ''+'' then map_option int (all_digits cs)
          else map_option int (all_digits s))"

text \<open>A decimal literal \<^verbatim>\<open>digits [. digits] [e [sign] digits]\<close> with a digit before or after
  the point: the pair \<open>(n, k)\<close> stands for \<open>n * 10 ^ k\<close>.\<close>

definition parse_decimal :: "string \<Rightarrow> (nat \<times> int) option" where
  "parse_decimal s =
     (let ip = takeWhile is_digit s;
          r1 = dropWhile is_digit s;
          fr = (case r1 of
                  [] \<Rightarrow> ([], [])
                | c # cs \<Rightarrow>
                    if c = CHR ''.'' then (takeWhile is_digit cs, dropWhile is_digit cs)
                    else ([], r1));
          fp = fst fr;
          r2 = snd fr
      in if ip = [] \<and> fp = [] then None
         else (case r2 of
                 [] \<Rightarrow> Some (nat_of_digits (ip @ fp), - int (length fp))
               | c # cs \<Rightarrow>
                   if c = CHR ''e'' \<or> c = CHR ''E'' then
                     map_option (\<lambda>x. (nat_of_digits (ip @ fp), x - int (length fp))) (parse_exp cs)
                   else None))"

definition float_body :: "bool \<Rightarrow> string \<Rightarrow> pyfloat option" where
  "float_body neg s =
     (if lower s = ''inf'' \<or> lower s = ''infinity'' then Some (Infinity neg)
      else if lower s = ''nan'' then Some NaN
      else (case parse_decimal s of
              None \<Rightarrow> None
            | Some (n, k) \<Rightarrow>
                Some (round_ratio neg (fst (scaled10 n 1 (- k))) (snd (scaled10 n 1 (- k))))))"

text \<open>\<^verbatim>\<open>float(s)\<close>; \<open>None\<close> stands for the \<^verbatim>\<open>ValueError\<close> of text that is no number.\<close>

definition py_float :: "string \<Rightarrow> pyfloat option" where
  "py_float s =
     (case drop_underscores (CHR 0x00) s of
        None \<Rightarrow> None
      | Some t \<Rightarrow>
          (case strip_with is_num_space t of
             [] \<Rightarrow> None
           | c # cs \<Rightarrow>
               if c = CHR ''-'' then float_body True cs
               else if c = CHR ''+'' then float_body False cs
               else float_body False (c # cs)))"

text \<open>\<open>x * y\<close> on floats.\<close>

fun float_mul :: "pyfloat \<Rightarrow> pyfloat \<Rightarrow> pyfloat" where
  "float_mul (Finite s1 m1 e1) (Finite s2 m2 e2) =
     round_ratio (s1 \<noteq> s2) (fst (scaled2 (m1 * m2) 1 (- (e1 + e2))))
       (snd (scaled2 (m1 * m2) 1 (- (e1 + e2))))"
| "float_mul (Finite s1 m1 e1) (Infinity s2) = (if m1 = 0 then NaN else Infinity (s1 \<noteq> s2))"
| "float_mul (Infinity s1) (Finite s2 m2 e2) = (if m2 = 0 then NaN else Infinity (s1 \<noteq> s2))"
| "float_mul (Infinity s1) (Infinity s2) = Infinity (s1 \<noteq> s2)"
| "float_mul NaN y = NaN"
| "float_mul x NaN = NaN"

text \<open>\<open>a / b\<close> on two non-negative integers, \<open>b\<close> positive: the nearest double.\<close>

definition int_truediv :: "nat \<Rightarrow> nat \<Rightarrow> pyfloat" where
  "int_truediv a b = round_ratio False a b"

text \<open>\<^verbatim>\<open>int(x)\<close> on a float: truncation towards zero.\<close>

fun float_trunc :: "pyfloat \<Rightarrow> error + int" where
  "float_trunc (Finite s m e) =
     Inr ((if s then - 1 else 1) * int (fst (scaled2 m 1 (- e)) div snd (scaled2 m 1 (- e))))"
| "float_trunc (Infinity s) = Inl OverflowError"
| "float_trunc NaN = Inl ValueError"

text \<open>\<^verbatim>\<open>'{:.5f}'.format(x)\<close>: the exact value of the double, rounded to five decimals.\<close>

fun format_coordinates :: "pyfloat \<Rightarrow> string" where
  "format_coordinates (Finite s m e) =
     (let ab = scaled2 (m * 100000) 1 (- e);
          n = rhe_div (fst ab) (snd ab)
      in (if s then ''-'' else []) @ str_nat (n div 100000) @ ''.'' @ zfill 5 (n mod 100000))"
| "format_coordinates (Infinity s) = (if s then ''-inf'' else ''inf'')"
| "format_coordinates NaN = ''nan''"

text \<open>\<^verbatim>\<open>str(x)\<close> on a float is \<^verbatim>\<open>repr(x)\<close>: the shortest decimal that rounds back to \<open>x\<close>.
  \<open>pow10_le p q k\<close> says that \<open>10 ^ k \<le> p / q\<close>; \<open>floor_log10\<close> searches the decimal
  exponent of \<open>p / q\<close> upwards from an estimate below it.\<close>

definition pow10_le :: "nat \<Rightarrow> nat \<Rightarrow> int \<Rightarrow> bool" where
  "pow10_le p q k = (snd (scaled10 p q k) \<le> fst (scaled10 p q k))"

fun search_log10 :: "nat \<Rightarrow> nat \<Rightarrow> nat \<Rightarrow> int \<Rightarrow> int" where
  "search_log10 0 p q k = k"
| "search_log10 (Suc fuel) p q k =
     (if pow10_le p q (k + 1) then search_log10 fuel p q (k + 1) else k)"

definition floor_log10 :: "nat \<Rightarrow> nat \<Rightarrow> int" where
  "floor_log10 p q =
     search_log10 6 p q (((int (bitlen p) - int (bitlen q) - 1) * 30103) div 100000 - 1)"

text \<open>The decimals with \<open>n\<close> significant digits around \<open>p / q\<close>: a candidate \<open>c\<close> at scale
  \<open>sc\<close> stands for \<open>c / 10 ^ sc\<close>. The nearest one comes first, then its neighbour on the
  other side of \<open>p / q\<close>.\<close>

definition decimal_value :: "nat \<Rightarrow> int \<Rightarrow> pyfloat" where
  "decimal_value c sc = round_ratio False (fst (scaled10 c 1 sc)) (snd (scaled10 c 1 sc))"

definition candidates :: "nat \<Rightarrow> nat \<Rightarrow> int \<Rightarrow> nat list" where
  "candidates p q sc =
     (let ab = scaled10 p q (- sc);
          lo = fst ab div snd ab;
          near = rhe_div (fst ab) (snd ab)
      in if near = lo then [lo, lo + 1] else [lo + 1, lo])"

fun shortest :: "nat \<Rightarrow> nat \<Rightarrow> nat \<Rightarrow> nat \<Rightarrow> int \<Rightarrow> pyfloat \<Rightarrow> nat \<times> int" where
  "shortest 0 n p q k x = (hd (candidates p q (int n - 1 - k)), int n - 1 - k)"
| "shortest (Suc fuel) n p q k x =
     (let sc = int n - 1 - k
      in (case filter (\<lambda>c. decimal_value c sc = x) (candidates p q sc) of
            c # cs \<Rightarrow> (c, sc)
          | [] \<Rightarrow> shortest fuel (Suc n) p q k x))"

definition strip_zeros :: "string \<Rightarrow> string" where
  "strip_zeros ds = rev (dropWhile (\<lambda>c. c = CHR ''0'') (rev ds))"

text \<open>The digits \<open>ds\<close> with the decimal point after the first \<open>decpt\<close> of them, laid out as
  \<^verbatim>\<open>repr\<close> does: plain for \<open>-4 < decpt \<le> 16\<close>, with an exponent otherwise.\<close>

definition layout_repr :: "string \<Rightarrow> int \<Rightarrow> string" where
  "layout_repr ds decpt =
     (if - 4 < decpt \<and> decpt \<le> 16 then
        (if decpt \<le> 0 then ''0.'' @ replicate (nat (- decpt)) (CHR ''0'') @ ds
         else if int (length ds) \<le> decpt then
           ds @ replicate (nat decpt - length ds) (CHR ''0'') @ ''.0''
         else take (nat decpt) ds @ ''.'' @ drop (nat decpt) ds)
      else
        take 1 ds @ (if 1 < length ds then ''.'' @ drop 1 ds else []) @ ''e''
        @ (if decpt - 1 < 0 then ''-'' else ''+'') @ zfill 2 (nat (abs (decpt - 1))))"

fun str_float :: "pyfloat \<Rightarrow> string" where
  "str_float (Finite s m e) =
     (if s then ''-'' else []) @
     (if m = 0 then ''0.0''
      else
        let p = fst (scaled2 m 1 (- e));
            q = snd (scaled2 m 1 (- e));
            cs = shortest 16 1 p q (floor_log10 p q) (Finite False m e);
            ds = str_nat (fst cs)
        in layout_repr (strip_zeros ds) (int (length ds) - snd cs))"
| "str_float (Infinity s) = (if s then ''-inf'' else ''inf'')"
| "str_float NaN = ''nan''"

subsection \<open>Timestamps: \<^verbatim>\<open>datetime.strptime\<close> and \<^verbatim>\<open>datetime.strftime\<close>\<close>

record datetime =
  year :: nat
  month :: nat
  day :: nat
  hour :: nat
  minute :: nat
  second :: nat
  microsecond :: nat

text \<open>A numeric directive of \<^verbatim>\<open>strptime\<close> takes one or two digits whose value lies in a
  range; \<^verbatim>\<open>%d\<close> also takes a space followed by one digit that is not zero.\<close>

definition num_field :: "nat \<Rightarrow> nat \<Rightarrow> string \<Rightarrow> nat option" where
  "num_field lo hi s =
     (if (length s = 1 \<or> length s = 2) \<and> list_all is_digit s
         \<and> lo \<le> nat_of_digits s \<and> nat_of_digits s \<le> hi
      then Some (nat_of_digits s) else None)"

definition day_field :: "string \<Rightarrow> nat option" where
  "day_field s =
     (case s of
        [a, b] \<Rightarrow> if a = CHR '' '' then num_field 1 9 [b] else num_field 1 31 s
      | _ \<Rightarrow> num_field 1 31 s)"

definition leap_year :: "nat \<Rightarrow> bool" where
  "leap_year y = (y mod 4 = 0 \<and> (y mod 100 \<noteq> 0 \<or> y mod 400 = 0))"

definition days_in_month :: "nat \<Rightarrow> nat \<Rightarrow> nat" where
  "days_in_month y m =
     (if m = 2 then (if leap_year y then 29 else 28)
      else if m = 4 \<or> m = 6 \<or> m = 9 \<or> m = 11 then 30 else 31)"

text \<open>\<^verbatim>\<open>datetime.strptime(s, '%Y/%m/%d')\<close>: four digits of year, month and day, a date of the
  calendar from the year 1 on. \<open>None\<close> stands for its \<^verbatim>\<open>ValueError\<close>.\<close>

definition strptime_date :: "string \<Rightarrow> (nat \<times> nat \<times> nat) option" where
  "strptime_date s =
     (case split (CHR ''/'') s of
        [y, m, d] \<Rightarrow>
          (if length y = 4 \<and> list_all is_digit y then
             (case num_field 1 12 m of
                None \<Rightarrow> None
              | Some mo \<Rightarrow>
                  (case day_field d of
                     None \<Rightarrow> None
                   | Some da \<Rightarrow>
                       if 1 \<le> nat_of_digits y \<and> da \<le> days_in_month (nat_of_digits y) mo
                       then Some (nat_of_digits y, mo, da) else None))
           else None)
      | _ \<Rightarrow> None)"

text \<open>\<^verbatim>\<open>datetime.strptime(s, '%H:%M:%S')\<close>: the pattern of \<^verbatim>\<open>%S\<close> goes up to 61, and the
  constructor of \<^verbatim>\<open>datetime\<close> then refuses 60 and 61.\<close>

definition strptime_time :: "string \<Rightarrow> (nat \<times> nat \<times> nat) option" where
  "strptime_time s =
     (case split (CHR '':'') s of
        [h, m, sec] \<Rightarrow>
          (case num_field 0 23 h of
             None \<Rightarrow> None
           | Some hh \<Rightarrow>
               (case num_field 0 59 m of
                  None \<Rightarrow> None
                | Some mm \<Rightarrow>
                    (case num_field 0 61 sec of
                       None \<Rightarrow> None
                     | Some ss \<Rightarrow> if ss \<le> 59 then Some (hh, mm, ss) else None)))
      | _ \<Rightarrow> None)"

section \<open>The codec of \<^verbatim>\<open>py1090/message.py\<close>\<close>

subsection \<open>Scalar helpers\<close>

text \<open>\<^verbatim>\<open>_parse_datetime(datestr, timestr)\<close>: the date, then the time up to its last dot,
  then the fraction \<^verbatim>\<open>float(separator + millisstr)\<close> turned into microseconds by
  \<^verbatim>\<open>int(seconds*1000000)\<close>, which \<^verbatim>\<open>time.replace\<close> accepts from 0 to 999999; it raises
  \<^verbatim>\<open>OverflowError\<close> on a number that does not fit a C \<^verbatim>\<open>int\<close> of 32 bits and
  \<^verbatim>\<open>ValueError\<close> on any other.\<close>

definition parse_datetime :: "string \<Rightarrow> string \<Rightarrow> error + datetime" where
  "parse_datetime datestr timestr =
     (case strptime_date datestr of
        None \<Rightarrow> Inl ValueError
      | Some (y, mo, d) \<Rightarrow>
          (case rpartition_dot timestr of
             (timestr', separator, millisstr) \<Rightarrow>
               (case strptime_time timestr' of
                  None \<Rightarrow> Inl ValueError
                | Some (h, mi, s) \<Rightarrow>
                    (case py_float (separator @ millisstr) of
                       None \<Rightarrow> Inl ValueError
                     | Some seconds \<Rightarrow>
                         (case float_trunc (float_mul seconds (round_ratio False 1000000 1)) of
                            Inl e \<Rightarrow> Inl e
                          | Inr us \<Rightarrow>
                              if 0 \<le> us \<and> us \<le> 999999 then
                                Inr \<lparr>year = y, month = mo, day = d, hour = h, minute = mi,
                                     second = s, microsecond = nat us\<rparr>
                              else if us < - 2147483648 \<or> 2147483647 < us then
                                Inl OverflowError
                              else Inl ValueError)))))"

text \<open>\<^verbatim>\<open>_parse_bool(str)\<close>: the function ends without a \<^verbatim>\<open>return\<close> on any other text, so
  that its value is \<^verbatim>\<open>None\<close> there.\<close>

definition parse_bool :: "string \<Rightarrow> bool option" where
  "parse_bool str =
     (if lower str \<in> set [''true'', ''y'', ''yes'', ''on'', ''1''] then Some True
      else if lower str \<in> set [''false'', ''n'', ''no'', ''off'', ''0''] then Some False
      else None)"

text \<open>\<^verbatim>\<open>_dump_datetime(time)\<close>: \<^verbatim>\<open>strftime\<close> with \<^verbatim>\<open>'%Y/%m/%d,%H:%M:%S'\<close> (the C library
  writes the year without padding), then the milliseconds \<^verbatim>\<open>int(time.microsecond/1000)\<close>
  on three digits. The quotient of two integers is a finite float, so that its
  truncation never fails.\<close>

definition dump_datetime :: "datetime \<Rightarrow> string" where
  "dump_datetime time =
     str_nat (year time) @ ''/'' @ zfill 2 (month time) @ ''/'' @ zfill 2 (day time) @ '',''
     @ zfill 2 (hour time) @ '':'' @ zfill 2 (minute time) @ '':'' @ zfill 2 (second time)
     @ ''.'' @
     (case float_trunc (int_truediv (microsecond time) 1000) of
        Inr ms \<Rightarrow> zfill 3 (nat ms)
      | Inl e \<Rightarrow> [])"

definition dump_bool :: "bool \<Rightarrow> string" where
  "dump_bool v = (if v = True then ''1'' else ''0'')"

text \<open>\<^verbatim>\<open>_dump_or_none(value, func=str)\<close>; \<^verbatim>\<open>str\<close> is the identity on a string, \<open>str_int\<close>
  on an integer and \<open>str_float\<close> on a float.\<close>

definition dump_or_none :: "'a option \<Rightarrow> ('a \<Rightarrow> string) \<Rightarrow> string" where
  "dump_or_none v func = (case v of None \<Rightarrow> [] | Some x \<Rightarrow> func x)"

subsection \<open>The record\<close>

text \<open>The attributes of \<^verbatim>\<open>Message\<close>, each one \<^verbatim>\<open>None\<close> or a value of the type that
  \<^verbatim>\<open>parse_string\<close> stores in it.\<close>

record message =
  message_type :: "string option"
  transmission_type :: "int option"
  session_id :: "int option"
  aircraft_id :: "int option"
  hexident :: "string option"
  flight_id :: "string option"
  generation_time :: "datetime option"
  record_time :: "datetime option"
  callsign :: "string option"
  altitude :: "int option"
  ground_speed :: "pyfloat option"
  track :: "pyfloat option"
  latitude :: "pyfloat option"
  longitude :: "pyfloat option"
  vertical_rate :: "int option"
  squawk :: "int option"
  squawk_alert :: "bool option"
  emergency :: "bool option"
  spi :: "bool option"
  on_ground :: "bool option"

text \<open>\<^verbatim>\<open>Message.__init__\<close>.\<close>

definition init_message :: message where
  "init_message =
     \<lparr>message_type = None, transmission_type = None, session_id = None, aircraft_id = None,
      hexident = None, flight_id = None, generation_time = None, record_time = None,
      callsign = None, altitude = None, ground_speed = None, track = None, latitude = None,
      longitude = None, vertical_rate = None, squawk = None, squawk_alert = None,
      emergency = None, spi = None, on_ground = None\<rparr>"

subsection \<open>Decoding: \<^verbatim>\<open>Message.parse_string\<close>\<close>

text \<open>\<^verbatim>\<open>parse_string\<close> updates the object statement by statement, and an exception leaves it
  as the statements before have made it: \<open>Done m\<close> is a normal return with the object in
  state \<open>m\<close>, \<open>Raised e m\<close> the exception \<open>e\<close> with the object in state \<open>m\<close>.\<close>

datatype outcome = Done message | Raised error message

fun seq :: "(message \<Rightarrow> outcome) list \<Rightarrow> message \<Rightarrow> outcome" where
  "seq [] self = Done self"
| "seq (f # fs) self = (case f self of Done self' \<Rightarrow> seq fs self' | Raised e self' \<Rightarrow> Raised e self')"

text \<open>\<^verbatim>\<open>parts[i]\<close> and \<^verbatim>\<open>parts[-1]\<close>.\<close>

definition item :: "string list \<Rightarrow> nat \<Rightarrow> error + string" where
  "item parts i = (if i < length parts then Inr (parts ! i) else Inl IndexError)"

definition item_last :: "string list \<Rightarrow> error + string" where
  "item_last parts = (if parts = [] then Inl IndexError else Inr (last parts))"

text \<open>The statements of \<^verbatim>\<open>parse_string\<close>, in the order of the source (lines 160 to 226).
  \<open>int_field\<close>, \<open>float_field\<close> and \<open>bool_field\<close> are the pattern
  \<^verbatim>\<open>if parts[i]: self.attr = conv(parts[i])\<close> of lines 163, 188 and 198 to 226.\<close>

definition set_message_type :: "string list \<Rightarrow> message \<Rightarrow> outcome" where
  "set_message_type parts self =
     (case item parts 0 of
        Inl e \<Rightarrow> Raised e self
      | Inr p \<Rightarrow> if p \<noteq> [] then Done (self\<lparr>message_type := Some (upper p)\<rparr>) else Done self)"

definition int_field ::
  "nat \<Rightarrow> (int option \<Rightarrow> message \<Rightarrow> message) \<Rightarrow> string list \<Rightarrow> message \<Rightarrow> outcome" where
  "int_field i store parts self =
     (case item parts i of
        Inl e \<Rightarrow> Raised e self
      | Inr p \<Rightarrow>
          if p \<noteq> [] then
            (case py_int p of
               None \<Rightarrow> Raised ValueError self
             | Some v \<Rightarrow> Done (store (Some v) self))
          else Done self)"

definition float_field ::
  "nat \<Rightarrow> (pyfloat option \<Rightarrow> message \<Rightarrow> message) \<Rightarrow> string list \<Rightarrow> message \<Rightarrow> outcome" where
  "float_field i store parts self =
     (case item parts i of
        Inl e \<Rightarrow> Raised e self
      | Inr p \<Rightarrow>
          if p \<noteq> [] then
            (case py_float p of
               None \<Rightarrow> Raised ValueError self
             | Some v \<Rightarrow> Done (store (Some v) self))
          else Done self)"

definition bool_field ::
  "nat \<Rightarrow> (bool option \<Rightarrow> message \<Rightarrow> message) \<Rightarrow> string list \<Rightarrow> message \<Rightarrow> outcome" where
  "bool_field i store parts self =
     (case item parts i of
        Inl e \<Rightarrow> Raised e self
      | Inr p \<Rightarrow> if p \<noteq> [] then Done (store (parse_bool p) self) else Done self)"

definition set_transmission_type :: "string list \<Rightarrow> message \<Rightarrow> outcome" where
  "set_transmission_type = int_field 1 (\<lambda>v self. self\<lparr>transmission_type := v\<rparr>)"

definition set_session_id :: "string list \<Rightarrow> message \<Rightarrow> outcome" where
  "set_session_id parts self =
     (case item parts 2 of
        Inl e \<Rightarrow> Raised e self
      | Inr p \<Rightarrow>
          if p \<noteq> [] \<and> p \<noteq> ''111'' then
            (case py_int p of
               None \<Rightarrow> Raised ValueError self
             | Some v \<Rightarrow> Done (self\<lparr>session_id := Some v\<rparr>))
          else Done self)"

definition set_aircraft_id :: "string list \<Rightarrow> message \<Rightarrow> outcome" where
  "set_aircraft_id parts self =
     (case item parts 3 of
        Inl e \<Rightarrow> Raised e self
      | Inr p \<Rightarrow>
          if p \<noteq> [] \<and> p \<noteq> ''11111'' then
            (case py_int p of
               None \<Rightarrow> Raised ValueError self
             | Some v \<Rightarrow> Done (self\<lparr>aircraft_id := Some v\<rparr>))
          else Done self)"

definition set_hexident :: "string list \<Rightarrow> message \<Rightarrow> outcome" where
  "set_hexident parts self =
     (case item parts 4 of
        Inl e \<Rightarrow> Raised e self
      | Inr p \<Rightarrow> if p \<noteq> [] then Done (self\<lparr>hexident := Some (upper p)\<rparr>) else Done self)"

definition set_flight_id :: "string list \<Rightarrow> message \<Rightarrow> outcome" where
  "set_flight_id parts self =
     (case item parts 5 of
        Inl e \<Rightarrow> Raised e self
      | Inr p \<Rightarrow>
          if p \<noteq> [] \<and> p \<noteq> ''111111'' then Done (self\<lparr>flight_id := Some (upper p)\<rparr>)
          else Done self)"

text \<open>Line 178: \<^verbatim>\<open>if len(parts[6]) > 0 and len(parts[7]) > 0\<close>; the \<^verbatim>\<open>and\<close> reads
  \<^verbatim>\<open>parts[7]\<close> only when \<^verbatim>\<open>parts[6]\<close> is not empty.\<close>

definition set_generation_time :: "string list \<Rightarrow> message \<Rightarrow> outcome" where
  "set_generation_time parts self =
     (case item parts 6 of
        Inl e \<Rightarrow> Raised e self
      | Inr d \<Rightarrow>
          if 0 < length d then
            (case item parts 7 of
               Inl e \<Rightarrow> Raised e self
             | Inr t \<Rightarrow>
                 if 0 < length t then
                   (case parse_datetime d t of
                      Inl e \<Rightarrow> Raised e self
                    | Inr v \<Rightarrow> Done (self\<lparr>generation_time := Some v\<rparr>))
                 else Done self)
          else Done self)"

text \<open>Line 181: \<^verbatim>\<open>if len(parts[8]) > 0 and len(parts[8]) > 0\<close>, both tests on \<^verbatim>\<open>parts[8]\<close>;
  line 182 then reads \<^verbatim>\<open>parts[9]\<close>.\<close>

definition set_record_time :: "string list \<Rightarrow> message \<Rightarrow> outcome" where
  "set_record_time parts self =
     (case item parts 8 of
        Inl e \<Rightarrow> Raised e self
      | Inr d \<Rightarrow>
          if 0 < length d \<and> 0 < length d then
            (case item parts 9 of
               Inl e \<Rightarrow> Raised e self
             | Inr t \<Rightarrow>
                 (case parse_datetime d t of
                    Inl e \<Rightarrow> Raised e self
                  | Inr v \<Rightarrow> Done (self\<lparr>record_time := Some v\<rparr>)))
          else Done self)"

text \<open>Line 184: \<^verbatim>\<open>if len(parts) > 10 and parts[10]\<close>.\<close>

definition set_callsign :: "string list \<Rightarrow> message \<Rightarrow> outcome" where
  "set_callsign parts self =
     (if 10 < length parts \<and> parts ! 10 \<noteq> [] then Done (self\<lparr>callsign := Some (upper (parts ! 10))\<rparr>)
      else Done self)"

definition set_altitude :: "string list \<Rightarrow> message \<Rightarrow> outcome" where
  "set_altitude = int_field 11 (\<lambda>v self. self\<lparr>altitude := v\<rparr>)"

text \<open>Lines 194 to 196, the branch of sub-type 7 with 21 fields:
  \<^verbatim>\<open>if parts[-1]: self.on_ground = _parse_bool(parts[-1])\<close>, then \<^verbatim>\<open>return\<close>.\<close>

definition set_on_ground_last :: "string list \<Rightarrow> message \<Rightarrow> outcome" where
  "set_on_ground_last parts self =
     (case item_last parts of
        Inl e \<Rightarrow> Raised e self
      | Inr p \<Rightarrow> if p \<noteq> [] then Done (self\<lparr>on_ground := parse_bool p\<rparr>) else Done self)"

definition set_ground_speed :: "string list \<Rightarrow> message \<Rightarrow> outcome" where
  "set_ground_speed = float_field 12 (\<lambda>v self. self\<lparr>ground_speed := v\<rparr>)"

definition set_track :: "string list \<Rightarrow> message \<Rightarrow> outcome" where
  "set_track = float_field 13 (\<lambda>v self. self\<lparr>track := v\<rparr>)"

definition set_latitude :: "string list \<Rightarrow> message \<Rightarrow> outcome" where
  "set_latitude = float_field 14 (\<lambda>v self. self\<lparr>latitude := v\<rparr>)"

definition set_longitude :: "string list \<Rightarrow> message \<Rightarrow> outcome" where
  "set_longitude = float_field 15 (\<lambda>v self. self\<lparr>longitude := v\<rparr>)"

definition set_vertical_rate :: "string list \<Rightarrow> message \<Rightarrow> outcome" where
  "set_vertical_rate = int_field 16 (\<lambda>v self. self\<lparr>vertical_rate := v\<rparr>)"

definition set_squawk :: "string list \<Rightarrow> message \<Rightarrow> outcome" where
  "set_squawk = int_field 17 (\<lambda>v self. self\<lparr>squawk := v\<rparr>)"

definition set_squawk_alert :: "string list \<Rightarrow> message \<Rightarrow> outcome" where
  "set_squawk_alert = bool_field 18 (\<lambda>v self. self\<lparr>squawk_alert := v\<rparr>)"

definition set_emergency :: "string list \<Rightarrow> message \<Rightarrow> outcome" where
  "set_emergency = bool_field 19 (\<lambda>v self. self\<lparr>emergency := v\<rparr>)"

definition set_spi :: "string list \<Rightarrow> message \<Rightarrow> outcome" where
  "set_spi = bool_field 20 (\<lambda>v self. self\<lparr>spi := v\<rparr>)"

definition set_on_ground :: "string list \<Rightarrow> message \<Rightarrow> outcome" where
  "set_on_ground = bool_field 21 (\<lambda>v self. self\<lparr>on_ground := v\<rparr>)"

text \<open>Lines 193 to 226: the branch of sub-type 7 with 21 fields returns after
  \<^verbatim>\<open>on_ground\<close>; any other line goes on through fields 12 to 21.\<close>

definition msg_rest :: "string list \<Rightarrow> message \<Rightarrow> outcome" where
  "msg_rest parts self =
     (if transmission_type self = Some 7 \<and> length parts = 21 then set_on_ground_last parts self
      else seq [set_ground_speed parts, set_track parts, set_latitude parts, set_longitude parts,
                set_vertical_rate parts, set_squawk parts, set_squawk_alert parts,
                set_emergency parts, set_spi parts, set_on_ground parts] self)"

text \<open>Lines 187 to 226: \<^verbatim>\<open>if self.message_type == 'MSG'\<close>, on the attribute as it is by
  then.\<close>

definition msg_fields :: "string list \<Rightarrow> message \<Rightarrow> outcome" where
  "msg_fields parts self =
     (if message_type self = Some ''MSG'' then seq [set_altitude parts, msg_rest parts] self
      else Done self)"

definition parse_parts :: "string list \<Rightarrow> message \<Rightarrow> outcome" where
  "parse_parts parts self =
     seq [set_message_type parts, set_transmission_type parts, set_session_id parts,
          set_aircraft_id parts, set_hexident parts, set_flight_id parts,
          set_generation_time parts, set_record_time parts, set_callsign parts,
          msg_fields parts] self"

text \<open>Line 158: \<^verbatim>\<open>parts = string.strip().split(',')\<close>.\<close>

definition parts_of :: "string \<Rightarrow> string list" where
  "parts_of string = split (CHR '','') (strip string)"

definition parse_string :: "message \<Rightarrow> string \<Rightarrow> outcome" where
  "parse_string self string = parse_parts (parts_of string) self"

text \<open>\<^verbatim>\<open>Message.from_string\<close>: a new object, \<^verbatim>\<open>parse_string\<close> on it; an exception of
  \<^verbatim>\<open>parse_string\<close> leaves the caller with the exception and no object.\<close>

text \<open>The object as a call of \<^verbatim>\<open>parse_string\<close> leaves it, returning or raising.\<close>

fun state_of :: "outcome \<Rightarrow> message" where
  "state_of (Done m) = m"
| "state_of (Raised e m) = m"

definition from_string :: "string \<Rightarrow> error + message" where
  "from_string string =
     (case parse_string init_message string of
        Done m \<Rightarrow> Inr m
      | Raised e m \<Rightarrow> Inl e)"

subsection \<open>Encoding: \<^verbatim>\<open>Message.to_string\<close>\<close>

definition to_string :: "message \<Rightarrow> string" where
  "to_string self =
     join '',''
       [dump_or_none (message_type self) id,
        dump_or_none (transmission_type self) str_int,
        dump_or_none (session_id self) str_int,
        dump_or_none (aircraft_id self) str_int,
        dump_or_none (hexident self) id,
        dump_or_none (flight_id self) id,
        dump_or_none (generation_time self) dump_datetime,
        dump_or_none (record_time self) dump_datetime,
        dump_or_none (callsign self) id,
        dump_or_none (altitude self) str_int,
        dump_or_none (ground_speed self) str_float,
        dump_or_none (track self) str_float,
        dump_or_none (latitude self) format_coordinates,
        dump_or_none (longitude self) format_coordinates,
        dump_or_none (vertical_rate self) str_int,
        dump_or_none (squawk self) str_int,
        dump_or_none (squawk_alert self) dump_bool,
        dump_or_none (emergency self) dump_bool,
        dump_or_none (spi self) dump_bool,
        dump_or_none (on_ground self) dump_bool]
     @ [CHR 0x0A]"

subsection \<open>The statements of \<^verbatim>\<open>parse_string\<close> in closed form\<close>

text \<open>The statements of lines 160 to 185 and those of lines 198 to 226, and the object that
  each group leaves when none of its statements raises: every attribute is either the one
  parsed from its field or the one that the object had.\<close>

definition opt_time :: "error + datetime \<Rightarrow> datetime option" where
  "opt_time r = (case r of Inl e \<Rightarrow> None | Inr v \<Rightarrow> Some v)"

definition head_steps :: "string list \<Rightarrow> (message \<Rightarrow> outcome) list" where
  "head_steps parts =
     [set_message_type parts, set_transmission_type parts, set_session_id parts,
      set_aircraft_id parts, set_hexident parts, set_flight_id parts,
      set_generation_time parts, set_record_time parts, set_callsign parts]"

definition rest_steps :: "string list \<Rightarrow> (message \<Rightarrow> outcome) list" where
  "rest_steps parts =
     [set_ground_speed parts, set_track parts, set_latitude parts, set_longitude parts,
      set_vertical_rate parts, set_squawk parts, set_squawk_alert parts,
      set_emergency parts, set_spi parts, set_on_ground parts]"

definition head_result :: "string list \<Rightarrow> message \<Rightarrow> message" where
  "head_result parts m =
     m\<lparr>message_type := (if parts ! 0 \<noteq> [] then Some (upper (parts ! 0)) else message_type m),
       transmission_type := (if parts ! 1 \<noteq> [] then py_int (parts ! 1) else transmission_type m),
       session_id :=
         (if parts ! 2 \<noteq> [] \<and> parts ! 2 \<noteq> ''111'' then py_int (parts ! 2) else session_id m),
       aircraft_id :=
         (if parts ! 3 \<noteq> [] \<and> parts ! 3 \<noteq> ''11111'' then py_int (parts ! 3) else aircraft_id m),
       hexident := (if parts ! 4 \<noteq> [] then Some (upper (parts ! 4)) else hexident m),
       flight_id :=
         (if parts ! 5 \<noteq> [] \<and> parts ! 5 \<noteq> ''111111'' then Some (upper (parts ! 5))
          else flight_id m),
       generation_time :=
         (if parts ! 6 \<noteq> [] \<and> parts ! 7 \<noteq> [] then opt_time (parse_datetime (parts ! 6) (parts ! 7))
          else generation_time m),
       record_time :=
         (if parts ! 8 \<noteq> [] then opt_time (parse_datetime (parts ! 8) (parts ! 9))
          else record_time m),
       callsign :=
         (if 10 < length parts \<and> parts ! 10 \<noteq> [] then Some (upper (parts ! 10)) else callsign m)\<rparr>"

definition rest_result :: "string list \<Rightarrow> message \<Rightarrow> message" where
  "rest_result parts m =
     m\<lparr>ground_speed := (if parts ! 12 \<noteq> [] then py_float (parts ! 12) else ground_speed m),
       track := (if parts ! 13 \<noteq> [] then py_float (parts ! 13) else track m),
       latitude := (if parts ! 14 \<noteq> [] then py_float (parts ! 14) else latitude m),
       longitude := (if parts ! 15 \<noteq> [] then py_float (parts ! 15) else longitude m),
       vertical_rate := (if parts ! 16 \<noteq> [] then py_int (parts ! 16) else vertical_rate m),
       squawk := (if parts ! 17 \<noteq> [] then py_int (parts ! 17) else squawk m),
       squawk_alert := (if parts ! 18 \<noteq> [] then parse_bool (parts ! 18) else squawk_alert m),
       emergency := (if parts ! 19 \<noteq> [] then parse_bool (parts ! 19) else emergency m),
       spi := (if parts ! 20 \<noteq> [] then parse_bool (parts ! 20) else spi m),
       on_ground := (if parts ! 21 \<noteq> [] then parse_bool (parts ! 21) else on_ground m)\<rparr>"



subsection \<open>What a statement leaves untouched\<close>

text \<open>\<open>keeps sel f\<close>: the statement \<open>f\<close> leaves the attribute \<open>sel\<close> of the object as it was,
  whether it returns or raises. \<open>never_clears sel f\<close>: it never turns an attribute that
  has a value into \<^verbatim>\<open>None\<close>.\<close>

definition keeps :: "(message \<Rightarrow> 'a) \<Rightarrow> (message \<Rightarrow> outcome) \<Rightarrow> bool" where
  "keeps sel f = (\<forall>m. sel (state_of (f m)) = sel m)"

definition never_clears :: "(message \<Rightarrow> 'a option) \<Rightarrow> (message \<Rightarrow> outcome) \<Rightarrow> bool" where
  "never_clears sel f = (\<forall>m. sel m \<noteq> None \<longrightarrow> sel (state_of (f m)) \<noteq> None)"

section \<open>Evaluation on concrete lines\<close>

named_theorems ev \<open>unfolding rules that evaluate the codec on a concrete line\<close>

lemmas [ev] = is_digit_def digit_val_def digit_char_def is_space_def is_num_space_def
  strip_with_def strip_def upper_char_def lower_char_def upper_def lower_def digits_us_def
  py_int_def str_int_def zfill_def parse_bool_def item_def item_last_def parts_of_def
  from_string_def parse_string_def parse_parts_def msg_fields_def msg_rest_def
  set_message_type_def set_transmission_type_def set_session_id_def set_aircraft_id_def
  set_hexident_def set_flight_id_def set_generation_time_def set_record_time_def
  set_callsign_def set_altitude_def set_on_ground_last_def set_ground_speed_def set_track_def
  set_latitude_def set_longitude_def set_vertical_rate_def set_squawk_def set_squawk_alert_def
  set_emergency_def set_spi_def set_on_ground_def int_field_def float_field_def bool_field_def
  init_message_def

section \<open>Basic facts\<close>

lemma split_not_Nil [simp]: "split sep s \<noteq> []"
  by (induction s) (auto split: list.splits)

lemma parts_of_not_Nil [simp]: "parts_of line \<noteq> []"
  by (simp add: parts_of_def)

lemma py_int_Nil [simp]: "py_int [] = None"
  by (simp add: py_int_def strip_with_def)

lemma set_message_type_Done:
  "parts \<noteq> [] \<Longrightarrow> \<exists>self'. set_message_type parts self = Done self'
      \<and> transmission_type self' = transmission_type self"
  by (cases parts) (auto simp: set_message_type_def item_def)

lemma seq_Cons_Done:
  "seq (f # fs) m = Done m' \<longleftrightarrow> (\<exists>m1. f m = Done m1 \<and> seq fs m1 = Done m')"
  by (cases "f m") auto

lemma seq_append: "seq (xs @ ys) m = (case seq xs m of Done m1 \<Rightarrow> seq ys m1 | Raised e m1 \<Rightarrow> Raised e m1)"
  by (induction xs arbitrary: m) (auto split: outcome.splits)

lemma int_field_Done:
  assumes "int_field i store parts a = Done b"
  shows "i < length parts \<and> b = (if parts ! i \<noteq> [] then store (py_int (parts ! i)) a else a)
         \<and> (parts ! i \<noteq> [] \<longrightarrow> py_int (parts ! i) \<noteq> None)"
  using assms by (auto simp: int_field_def item_def split: if_splits option.splits)

lemma float_field_Done:
  assumes "float_field i store parts a = Done b"
  shows "i < length parts \<and> b = (if parts ! i \<noteq> [] then store (py_float (parts ! i)) a else a)
         \<and> (parts ! i \<noteq> [] \<longrightarrow> py_float (parts ! i) \<noteq> None)"
  using assms by (auto simp: float_field_def item_def split: if_splits option.splits)

lemma bool_field_Done:
  assumes "bool_field i store parts a = Done b"
  shows "i < length parts \<and> b = (if parts ! i \<noteq> [] then store (parse_bool (parts ! i)) a else a)"
  using assms by (auto simp: bool_field_def item_def split: if_splits)

lemma set_message_type_eq:
  "set_message_type parts a = Done b \<Longrightarrow>
     b = a\<lparr>message_type := (if parts ! 0 \<noteq> [] then Some (upper (parts ! 0)) else message_type a)\<rparr>"
  by (auto simp: set_message_type_def item_def split: if_splits)

lemma set_transmission_type_eq:
  "set_transmission_type parts a = Done b \<Longrightarrow>
     1 < length parts \<and>
     b = a\<lparr>transmission_type := (if parts ! 1 \<noteq> [] then py_int (parts ! 1) else transmission_type a)\<rparr>"
  by (auto simp: set_transmission_type_def dest!: int_field_Done)

lemma set_session_id_eq:
  "set_session_id parts a = Done b \<Longrightarrow>
     2 < length parts \<and>
     b = a\<lparr>session_id := (if parts ! 2 \<noteq> [] \<and> parts ! 2 \<noteq> ''111'' then py_int (parts ! 2)
                           else session_id a)\<rparr>"
  by (auto simp: set_session_id_def item_def split: if_splits option.splits)

lemma set_aircraft_id_eq:
  "set_aircraft_id parts a = Done b \<Longrightarrow>
     3 < length parts \<and>
     b = a\<lparr>aircraft_id := (if parts ! 3 \<noteq> [] \<and> parts ! 3 \<noteq> ''11111'' then py_int (parts ! 3)
                            else aircraft_id a)\<rparr>"
  by (auto simp: set_aircraft_id_def item_def split: if_splits option.splits)

lemma set_hexident_eq:
  "set_hexident parts a = Done b \<Longrightarrow>
     4 < length parts \<and>
     b = a\<lparr>hexident := (if parts ! 4 \<noteq> [] then Some (upper (parts ! 4)) else hexident a)\<rparr>"
  by (auto simp: set_hexident_def item_def split: if_splits)

lemma set_flight_id_eq:
  "set_flight_id parts a = Done b \<Longrightarrow>
     5 < length parts \<and>
     b = a\<lparr>flight_id := (if parts ! 5 \<noteq> [] \<and> parts ! 5 \<noteq> ''111111'' then Some (upper (parts ! 5))
                          else flight_id a)\<rparr>"
  by (auto simp: set_flight_id_def item_def split: if_splits)

lemma set_generation_time_eq:
  "set_generation_time parts a = Done b \<Longrightarrow>
     6 < length parts \<and>
     b = a\<lparr>generation_time :=
             (if parts ! 6 \<noteq> [] \<and> parts ! 7 \<noteq> [] then opt_time (parse_datetime (parts ! 6) (parts ! 7))
              else generation_time a)\<rparr>"
  by (auto simp: set_generation_time_def item_def opt_time_def split: if_splits sum.splits)

lemma set_record_time_eq:
  "set_record_time parts a = Done b \<Longrightarrow>
     8 < length parts \<and>
     b = a\<lparr>record_time :=
             (if parts ! 8 \<noteq> [] then opt_time (parse_datetime (parts ! 8) (parts ! 9))
              else record_time a)\<rparr>"
  by (auto simp: set_record_time_def item_def opt_time_def split: if_splits sum.splits)

lemma set_callsign_eq:
  "set_callsign parts a = Done b \<Longrightarrow>
     b = a\<lparr>callsign := (if 10 < length parts \<and> parts ! 10 \<noteq> [] then Some (upper (parts ! 10))
                         else callsign a)\<rparr>"
  by (auto simp: set_callsign_def split: if_splits)

lemma head_Done:
  assumes "seq (head_steps parts) m = Done m'"
  shows "m' = head_result parts m \<and> 8 < length parts"
proof -
  from assms obtain m1 m2 m3 m4 m5 m6 m7 m8 where
    "set_message_type parts m = Done m1" "set_transmission_type parts m1 = Done m2"
    "set_session_id parts m2 = Done m3" "set_aircraft_id parts m3 = Done m4"
    "set_hexident parts m4 = Done m5" "set_flight_id parts m5 = Done m6"
    "set_generation_time parts m6 = Done m7" "set_record_time parts m7 = Done m8"
    "set_callsign parts m8 = Done m'"
    unfolding head_steps_def seq_Cons_Done by auto
  note st = this
  have e1: "m1 = m\<lparr>message_type := (if parts ! 0 \<noteq> [] then Some (upper (parts ! 0)) else message_type m)\<rparr>"
    using st(1) by (rule set_message_type_eq)
  have e2: "m2 = m1\<lparr>transmission_type := (if parts ! 1 \<noteq> [] then py_int (parts ! 1) else transmission_type m1)\<rparr>"
    using st(2) by (rule set_transmission_type_eq [THEN conjunct2])
  have e3: "m3 = m2\<lparr>session_id := (if parts ! 2 \<noteq> [] \<and> parts ! 2 \<noteq> ''111'' then py_int (parts ! 2)
                           else session_id m2)\<rparr>"
    using st(3) by (rule set_session_id_eq [THEN conjunct2])
  have e4: "m4 = m3\<lparr>aircraft_id := (if parts ! 3 \<noteq> [] \<and> parts ! 3 \<noteq> ''11111'' then py_int (parts ! 3)
                            else aircraft_id m3)\<rparr>"
    using st(4) by (rule set_aircraft_id_eq [THEN conjunct2])
  have e5: "m5 = m4\<lparr>hexident := (if parts ! 4 \<noteq> [] then Some (upper (parts ! 4)) else hexident m4)\<rparr>"
    using st(5) by (rule set_hexident_eq [THEN conjunct2])
  have e6: "m6 = m5\<lparr>flight_id := (if parts ! 5 \<noteq> [] \<and> parts ! 5 \<noteq> ''111111'' then Some (upper (parts ! 5))
                          else flight_id m5)\<rparr>"
    using st(6) by (rule set_flight_id_eq [THEN conjunct2])
  have e7: "m7 = m6\<lparr>generation_time :=
             (if parts ! 6 \<noteq> [] \<and> parts ! 7 \<noteq> [] then opt_time (parse_datetime (parts ! 6) (parts ! 7))
              else generation_time m6)\<rparr>"
    using st(7) by (rule set_generation_time_eq [THEN conjunct2])
  have e8: "m8 = m7\<lparr>record_time :=
             (if parts ! 8 \<noteq> [] then opt_time (parse_datetime (parts ! 8) (parts ! 9))
              else record_time m7)\<rparr>"
    using st(8) by (rule set_record_time_eq [THEN conjunct2])
  have e9: "m' = m8\<lparr>callsign := (if 10 < length parts \<and> parts ! 10 \<noteq> [] then Some (upper (parts ! 10))
                         else callsign m8)\<rparr>"
    using st(9) by (rule set_callsign_eq)
  have len: "8 < length parts" using st(8) by (rule set_record_time_eq [THEN conjunct1])
  have "m' = head_result parts m"
    unfolding head_result_def e9 e8 e7 e6 e5 e4 e3 e2 e1
    by (simp split del: if_split cong del: if_weak_cong)
  with len show ?thesis by simp
qed

lemma set_altitude_eq:
  "set_altitude parts a = Done b \<Longrightarrow>
     11 < length parts \<and>
     b = a\<lparr>altitude := (if parts ! 11 \<noteq> [] then py_int (parts ! 11) else altitude a)\<rparr>"
  using int_field_Done [of 11 "\<lambda>v self. self\<lparr>altitude := v\<rparr>" parts a b]
  by (auto simp: set_altitude_def)

lemma set_ground_speed_eq:
  "set_ground_speed parts a = Done b \<Longrightarrow>
     12 < length parts \<and>
     b = a\<lparr>ground_speed := (if parts ! 12 \<noteq> [] then py_float (parts ! 12) else ground_speed a)\<rparr>"
  using float_field_Done [of 12 "\<lambda>v self. self\<lparr>ground_speed := v\<rparr>" parts a b]
  by (auto simp: set_ground_speed_def)

lemma set_track_eq:
  "set_track parts a = Done b \<Longrightarrow>
     13 < length parts \<and>
     b = a\<lparr>track := (if parts ! 13 \<noteq> [] then py_float (parts ! 13) else track a)\<rparr>"
  using float_field_Done [of 13 "\<lambda>v self. self\<lparr>track := v\<rparr>" parts a b]
  by (auto simp: set_track_def)

lemma set_latitude_eq:
  "set_latitude parts a = Done b \<Longrightarrow>
     14 < length parts \<and>
     b = a\<lparr>latitude := (if parts ! 14 \<noteq> [] then py_float (parts ! 14) else latitude a)\<rparr>"
  using float_field_Done [of 14 "\<lambda>v self. self\<lparr>latitude := v\<rparr>" parts a b]
  by (auto simp: set_latitude_def)

lemma set_longitude_eq:
  "set_longitude parts a = Done b \<Longrightarrow>
     15 < length parts \<and>
     b = a\<lparr>longitude := (if parts ! 15 \<noteq> [] then py_float (parts ! 15) else longitude a)\<rparr>"
  using float_field_Done [of 15 "\<lambda>v self. self\<lparr>longitude := v\<rparr>" parts a b]
  by (auto simp: set_longitude_def)

lemma set_vertical_rate_eq:
  "set_vertical_rate parts a = Done b \<Longrightarrow>
     16 < length parts \<and>
     b = a\<lparr>vertical_rate := (if parts ! 16 \<noteq> [] then py_int (parts ! 16) else vertical_rate a)\<rparr>"
  using int_field_Done [of 16 "\<lambda>v self. self\<lparr>vertical_rate := v\<rparr>" parts a b]
  by (auto simp: set_vertical_rate_def)

lemma set_squawk_eq:
  "set_squawk parts a = Done b \<Longrightarrow>
     17 < length parts \<and>
     b = a\<lparr>squawk := (if parts ! 17 \<noteq> [] then py_int (parts ! 17) else squawk a)\<rparr>"
  using int_field_Done [of 17 "\<lambda>v self. self\<lparr>squawk := v\<rparr>" parts a b]
  by (auto simp: set_squawk_def)

lemma set_squawk_alert_eq:
  "set_squawk_alert parts a = Done b \<Longrightarrow>
     18 < length parts \<and>
     b = a\<lparr>squawk_alert := (if parts ! 18 \<noteq> [] then parse_bool (parts ! 18) else squawk_alert a)\<rparr>"
  using bool_field_Done [of 18 "\<lambda>v self. self\<lparr>squawk_alert := v\<rparr>" parts a b]
  by (auto simp: set_squawk_alert_def)

lemma set_emergency_eq:
  "set_emergency parts a = Done b \<Longrightarrow>
     19 < length parts \<and>
     b = a\<lparr>emergency := (if parts ! 19 \<noteq> [] then parse_bool (parts ! 19) else emergency a)\<rparr>"
  using bool_field_Done [of 19 "\<lambda>v self. self\<lparr>emergency := v\<rparr>" parts a b]
  by (auto simp: set_emergency_def)

lemma set_spi_eq:
  "set_spi parts a = Done b \<Longrightarrow>
     20 < length parts \<and>
     b = a\<lparr>spi := (if parts ! 20 \<noteq> [] then parse_bool (parts ! 20) else spi a)\<rparr>"
  using bool_field_Done [of 20 "\<lambda>v self. self\<lparr>spi := v\<rparr>" parts a b]
  by (auto simp: set_spi_def)

lemma set_on_ground_eq:
  "set_on_ground parts a = Done b \<Longrightarrow>
     21 < length parts \<and>
     b = a\<lparr>on_ground := (if parts ! 21 \<noteq> [] then parse_bool (parts ! 21) else on_ground a)\<rparr>"
  using bool_field_Done [of 21 "\<lambda>v self. self\<lparr>on_ground := v\<rparr>" parts a b]
  by (auto simp: set_on_ground_def)

lemma rest_Done:
  assumes "seq (rest_steps parts) m = Done m'"
  shows "m' = rest_result parts m \<and> 21 < length parts"
proof -
  from assms obtain m1 m2 m3 m4 m5 m6 m7 m8 m9 where
    "set_ground_speed parts m = Done m1" "set_track parts m1 = Done m2"
    "set_latitude parts m2 = Done m3" "set_longitude parts m3 = Done m4"
    "set_vertical_rate parts m4 = Done m5" "set_squawk parts m5 = Done m6"
    "set_squawk_alert parts m6 = Done m7" "set_emergency parts m7 = Done m8"
    "set_spi parts m8 = Done m9" "set_on_ground parts m9 = Done m'"
    unfolding rest_steps_def seq_Cons_Done by auto
  note st = this
  have e1: "m1 = m\<lparr>ground_speed := (if parts ! 12 \<noteq> [] then py_float (parts ! 12) else ground_speed m)\<rparr>"
    using st(1) by (rule set_ground_speed_eq [THEN conjunct2])
  have e2: "m2 = m1\<lparr>track := (if parts ! 13 \<noteq> [] then py_float (parts ! 13) else track m1)\<rparr>"
    using st(2) by (rule set_track_eq [THEN conjunct2])
  have e3: "m3 = m2\<lparr>latitude := (if parts ! 14 \<noteq> [] then py_float (parts ! 14) else latitude m2)\<rparr>"
    using st(3) by (rule set_latitude_eq [THEN conjunct2])
  have e4: "m4 = m3\<lparr>longitude := (if parts ! 15 \<noteq> [] then py_float (parts ! 15) else longitude m3)\<rparr>"
    using st(4) by (rule set_longitude_eq [THEN conjunct2])
  have e5: "m5 = m4\<lparr>vertical_rate := (if parts ! 16 \<noteq> [] then py_int (parts ! 16) else vertical_rate m4)\<rparr>"
    using st(5) by (rule set_vertical_rate_eq [THEN conjunct2])
  have e6: "m6 = m5\<lparr>squawk := (if parts ! 17 \<noteq> [] then py_int (parts ! 17) else squawk m5)\<rparr>"
    using st(6) by (rule set_squawk_eq [THEN conjunct2])
  have e7: "m7 = m6\<lparr>squawk_alert := (if parts ! 18 \<noteq> [] then parse_bool (parts ! 18) else squawk_alert m6)\<rparr>"
    using st(7) by (rule set_squawk_alert_eq [THEN conjunct2])
  have e8: "m8 = m7\<lparr>emergency := (if parts ! 19 \<noteq> [] then parse_bool (parts ! 19) else emergency m7)\<rparr>"
    using st(8) by (rule set_emergency_eq [THEN conjunct2])
  have e9: "m9 = m8\<lparr>spi := (if parts ! 20 \<noteq> [] then parse_bool (parts ! 20) else spi m8)\<rparr>"
    using st(9) by (rule set_spi_eq [THEN conjunct2])
  have e10: "m' = m9\<lparr>on_ground := (if parts ! 21 \<noteq> [] then parse_bool (parts ! 21) else on_ground m9)\<rparr>"
    using st(10) by (rule set_on_ground_eq [THEN conjunct2])
  have len: "21 < length parts" using st(10) by (rule set_on_ground_eq [THEN conjunct1])
  have "m' = rest_result parts m"
    unfolding rest_result_def e10 e9 e8 e7 e6 e5 e4 e3 e2 e1
    by (simp split del: if_split cong del: if_weak_cong)
  with len show ?thesis by simp
qed

lemma parse_parts_alt:
  "parse_parts parts m =
     (case seq (head_steps parts) m of
        Done m9 \<Rightarrow> msg_fields parts m9
      | Raised e x \<Rightarrow> Raised e x)"
proof -
  have "parse_parts parts m = seq (head_steps parts @ [msg_fields parts]) m"
    by (simp add: parse_parts_def head_steps_def)
  also have "\<dots> = (case seq (head_steps parts) m of
        Done m9 \<Rightarrow> msg_fields parts m9
      | Raised e x \<Rightarrow> Raised e x)"
    unfolding seq_append by (auto split: outcome.splits)
  finally show ?thesis .
qed

lemma parse_parts_Done:
  assumes "parse_parts parts m = Done m'"
  shows "8 < length parts \<and> msg_fields parts (head_result parts m) = Done m'"
  using assms head_Done [of parts m]
  by (auto simp: parse_parts_alt split: outcome.splits)

lemma msg_rest_alt:
  "msg_rest parts a =
     (if transmission_type a = Some 7 \<and> length parts = 21 then set_on_ground_last parts a
      else seq (rest_steps parts) a)"
  by (simp add: msg_rest_def rest_steps_def)

lemma set_on_ground_last_eq:
  "parts \<noteq> [] \<Longrightarrow>
   set_on_ground_last parts a =
     Done (a\<lparr>on_ground := (if last parts \<noteq> [] then parse_bool (last parts) else on_ground a)\<rparr>)"
  by (simp add: set_on_ground_last_def item_last_def)

lemma msg_fields_Done:
  assumes "msg_fields parts a = Done b"
  shows "(message_type a \<noteq> Some ''MSG'' \<and> b = a)
       \<or> (message_type a = Some ''MSG'' \<and> transmission_type a = Some 7 \<and> length parts = 21
          \<and> b = a\<lparr>altitude := (if parts ! 11 \<noteq> [] then py_int (parts ! 11) else altitude a),
                  on_ground := (if last parts \<noteq> [] then parse_bool (last parts) else on_ground a)\<rparr>)
       \<or> (message_type a = Some ''MSG'' \<and> \<not> (transmission_type a = Some 7 \<and> length parts = 21)
          \<and> 21 < length parts
          \<and> b = rest_result parts
                 (a\<lparr>altitude := (if parts ! 11 \<noteq> [] then py_int (parts ! 11) else altitude a)\<rparr>))"
proof (cases "message_type a = Some ''MSG''")
  case False
  with assms show ?thesis by (simp add: msg_fields_def)
next
  case True
  with assms obtain a1 where a1: "set_altitude parts a = Done a1" and r: "msg_rest parts a1 = Done b"
    by (auto simp: msg_fields_def split: outcome.splits)
  from a1 have len: "11 < length parts"
    and e1: "a1 = a\<lparr>altitude := (if parts ! 11 \<noteq> [] then py_int (parts ! 11) else altitude a)\<rparr>"
    using set_altitude_eq by blast+
  have tt: "transmission_type a1 = transmission_type a" by (simp add: e1)
  show ?thesis
  proof (cases "transmission_type a = Some 7 \<and> length parts = 21")
    case short: True
    then have "parts \<noteq> []" by auto
    with r short tt have "b = a1\<lparr>on_ground := (if last parts \<noteq> [] then parse_bool (last parts) else on_ground a1)\<rparr>"
      by (simp add: msg_rest_alt set_on_ground_last_eq)
    then have "b = a\<lparr>altitude := (if parts ! 11 \<noteq> [] then py_int (parts ! 11) else altitude a),
                  on_ground := (if last parts \<noteq> [] then parse_bool (last parts) else on_ground a)\<rparr>"
      unfolding e1 by (simp split del: if_split cong del: if_weak_cong)
    with True short show ?thesis by simp
  next
    case full: False
    with r tt have "seq (rest_steps parts) a1 = Done b" by (simp add: msg_rest_alt)
    then have "b = rest_result parts a1" "21 < length parts" using rest_Done by blast+
    with True full e1 show ?thesis by simp
  qed
qed

lemma from_string_Inr:
  "from_string line = Inr m \<longleftrightarrow> parse_parts (parts_of line) init_message = Done m"
  by (auto simp: from_string_def parse_string_def split: outcome.splits)

lemma head_result_init [simp]:
  "message_type (head_result parts init_message) =
     (if parts ! 0 \<noteq> [] then Some (upper (parts ! 0)) else None)"
  "transmission_type (head_result parts init_message) =
     (if parts ! 1 \<noteq> [] then py_int (parts ! 1) else None)"
  by (simp_all add: head_result_def init_message_def)

lemma upper_Nil [simp]: "upper [] = []"
  by (simp add: upper_def)

text \<open>The state of a new object when decoding has gone through.\<close>

lemma from_string_cases:
  assumes "from_string line = Inr m"
  defines "parts \<equiv> parts_of line"
  defines "h \<equiv> head_result parts init_message"
  shows "8 < length parts"
    and "(upper (parts ! 0) \<noteq> ''MSG'' \<and> m = h)
       \<or> (upper (parts ! 0) = ''MSG'' \<and> py_int (parts ! 1) = Some 7 \<and> length parts = 21
          \<and> m = h\<lparr>altitude := (if parts ! 11 \<noteq> [] then py_int (parts ! 11) else None),
                  on_ground := (if parts ! 20 \<noteq> [] then parse_bool (parts ! 20) else None)\<rparr>)
       \<or> (upper (parts ! 0) = ''MSG'' \<and> \<not> (py_int (parts ! 1) = Some 7 \<and> length parts = 21)
          \<and> 21 < length parts
          \<and> m = rest_result parts
                 (h\<lparr>altitude := (if parts ! 11 \<noteq> [] then py_int (parts ! 11) else None)\<rparr>))"
proof -
  from assms have pp: "8 < length parts" "msg_fields parts h = Done m"
    using parse_parts_Done [of parts init_message m] by (simp_all add: from_string_Inr)
  show "8 < length parts" by fact
  have mt: "message_type h = Some ''MSG'' \<longleftrightarrow> upper (parts ! 0) = ''MSG''"
    unfolding h_def by (cases "parts ! 0 = []") auto
  have tt: "transmission_type h = Some 7 \<longleftrightarrow> py_int (parts ! 1) = Some 7"
    unfolding h_def by (cases "parts ! 1 = []") auto
  have alt: "altitude h = None" "on_ground h = None"
    unfolding h_def by (simp_all add: head_result_def init_message_def)
  have l: "length parts = 21 \<Longrightarrow> last parts = parts ! 20"
    by (cases parts rule: rev_cases) (auto simp: nth_append)
  from msg_fields_Done [OF pp(2)]
  show "(upper (parts ! 0) \<noteq> ''MSG'' \<and> m = h)
       \<or> (upper (parts ! 0) = ''MSG'' \<and> py_int (parts ! 1) = Some 7 \<and> length parts = 21
          \<and> m = h\<lparr>altitude := (if parts ! 11 \<noteq> [] then py_int (parts ! 11) else None),
                  on_ground := (if parts ! 20 \<noteq> [] then parse_bool (parts ! 20) else None)\<rparr>)
       \<or> (upper (parts ! 0) = ''MSG'' \<and> \<not> (py_int (parts ! 1) = Some 7 \<and> length parts = 21)
          \<and> 21 < length parts
          \<and> m = rest_result parts
                 (h\<lparr>altitude := (if parts ! 11 \<noteq> [] then py_int (parts ! 11) else None)\<rparr>))"
    unfolding mt tt alt using l by (elim disjE conjE) (simp_all split del: if_split cong del: if_weak_cong)
qed

lemma item_take: "i < n \<Longrightarrow> item (take n parts) i = item parts i"
  by (simp add: item_def)

lemma set_callsign_take: "11 \<le> n \<Longrightarrow> set_callsign (take n parts) = set_callsign parts"
  by (auto simp: set_callsign_def fun_eq_iff)

lemma head_steps_take:
  assumes "11 \<le> n"
  shows "head_steps (take n parts) = head_steps parts"
proof -
  have it: "item (take n parts) 0 = item parts 0" "item (take n parts) 1 = item parts 1"
    "item (take n parts) 2 = item parts 2" "item (take n parts) 3 = item parts 3"
    "item (take n parts) 4 = item parts 4" "item (take n parts) 5 = item parts 5"
    "item (take n parts) 6 = item parts 6" "item (take n parts) 7 = item parts 7"
    "item (take n parts) 8 = item parts 8" "item (take n parts) 9 = item parts 9"
    using assms by (simp_all add: item_take)
  show ?thesis
    unfolding head_steps_def set_message_type_def set_transmission_type_def set_session_id_def
      set_aircraft_id_def set_hexident_def set_flight_id_def set_generation_time_def
      set_record_time_def int_field_def it set_callsign_take [OF assms]
    by (rule refl)
qed

lemma upper_not_MSG:
  "upper (parts ! 0) \<noteq> ''MSG'' \<Longrightarrow> message_type (head_result parts init_message) \<noteq> Some ''MSG''"
  by (cases "parts ! 0 = []") auto

lemma parse_parts_non_msg:
  assumes "upper (parts ! 0) \<noteq> ''MSG''"
  shows "parse_parts parts init_message = seq (head_steps parts) init_message"
proof (cases "seq (head_steps parts) init_message")
  case (Done m9)
  then have "m9 = head_result parts init_message" using head_Done by blast
  with assms have "message_type m9 \<noteq> Some ''MSG''" using upper_not_MSG by blast
  then have "msg_fields parts m9 = Done m9" by (simp add: msg_fields_def)
  with Done show ?thesis by (simp add: parse_parts_alt)
next
  case (Raised e x)
  then show ?thesis by (simp add: parse_parts_alt)
qed

lemma take_nth_eq: "take n xs = take n ys \<Longrightarrow> i < n \<Longrightarrow> xs ! i = ys ! i"
  by (metis nth_take)


lemma last_21: "length parts = 21 \<Longrightarrow> last parts = parts ! 20"
  by (cases parts rule: rev_cases) (auto simp: nth_append)



lemma parse_datetime_empty_time [simp]: "parse_datetime d [] = Inl ValueError"
  by (simp add: parse_datetime_def rpartition_dot_def strptime_time_def
      split: option.splits prod.splits)

lemma set_generation_time_partial:
  "7 < length parts \<Longrightarrow> parts ! 6 = [] \<or> parts ! 7 = [] \<Longrightarrow>
   set_generation_time parts self = Done self"
  by (auto simp: set_generation_time_def item_def)

lemma set_record_time_no_date:
  "8 < length parts \<Longrightarrow> parts ! 8 = [] \<Longrightarrow> set_record_time parts self = Done self"
  by (simp add: set_record_time_def item_def)

lemma set_record_time_no_time:
  "9 < length parts \<Longrightarrow> parts ! 8 \<noteq> [] \<Longrightarrow> parts ! 9 = [] \<Longrightarrow>
   set_record_time parts self = Raised ValueError self"
  by (simp add: set_record_time_def item_def)

lemma keeps_seq_Nil: "keeps sel (seq [])"
  by (simp add: keeps_def)

lemma keeps_seq_Cons:
  assumes "keeps sel f" and "keeps sel (seq fs)"
  shows "keeps sel (seq (f # fs))"
  unfolding keeps_def
proof
  fix m
  show "sel (state_of (seq (f # fs) m)) = sel m"
  proof (cases "f m")
    case (Done x)
    with assms(1) have "sel x = sel m" by (metis keeps_def state_of.simps(1))
    moreover from assms(2) have "sel (state_of (seq fs x)) = sel x" by (simp add: keeps_def)
    ultimately show ?thesis using Done by simp
  next
    case (Raised e x)
    with assms(1) have "sel x = sel m" by (metis keeps_def state_of.simps(2))
    then show ?thesis using Raised by simp
  qed
qed

lemma never_clears_seq_Nil: "never_clears sel (seq [])"
  by (simp add: never_clears_def)

lemma never_clears_seq_Cons:
  assumes "never_clears sel f" and "never_clears sel (seq fs)"
  shows "never_clears sel (seq (f # fs))"
  unfolding never_clears_def
proof (intro allI impI)
  fix m assume n: "sel m \<noteq> None"
  show "sel (state_of (seq (f # fs) m)) \<noteq> None"
  proof (cases "f m")
    case (Done x)
    with assms(1) n have "sel x \<noteq> None" by (metis never_clears_def state_of.simps(1))
    with assms(2) have "sel (state_of (seq fs x)) \<noteq> None" by (simp add: never_clears_def)
    then show ?thesis using Done by simp
  next
    case (Raised e x)
    with assms(1) n have "sel x \<noteq> None" by (metis never_clears_def state_of.simps(2))
    then show ?thesis using Raised by simp
  qed
qed

lemma keeps_never_clears: "keeps sel f \<Longrightarrow> never_clears sel f"
  by (simp add: keeps_def never_clears_def)

lemma keeps_by_shape:
  assumes "\<And>m. state_of (f m) = m \<or> (\<exists>v. state_of (f m) = upd v m)"
    and "\<And>v m. sel (upd v m) = sel m"
  shows "keeps sel f"
  unfolding keeps_def
proof
  fix m from assms(1) [of m] assms(2) show "sel (state_of (f m)) = sel m" by auto
qed

lemma never_clears_by_shape:
  assumes "\<And>m. state_of (f m) = m \<or> (\<exists>v. state_of (f m) = upd (Some v) m)"
    and "\<And>v m. sel (upd (Some v) m) \<noteq> None"
  shows "never_clears sel f"
  unfolding never_clears_def
proof (intro allI impI)
  fix m assume "sel m \<noteq> None"
  with assms(1) [of m] assms(2) show "sel (state_of (f m)) \<noteq> None" by auto
qed

lemma keeps_msg_fields:
  "keeps sel (set_altitude parts) \<Longrightarrow> keeps sel (msg_rest parts) \<Longrightarrow> keeps sel (msg_fields parts)"
  using keeps_seq_Cons [of sel "set_altitude parts" "[msg_rest parts]"]
        keeps_seq_Cons [of sel "msg_rest parts" "[]"] keeps_seq_Nil [of sel]
  by (simp add: keeps_def msg_fields_def)

lemma never_clears_msg_fields:
  "never_clears sel (set_altitude parts) \<Longrightarrow> never_clears sel (msg_rest parts) \<Longrightarrow>
   never_clears sel (msg_fields parts)"
  using never_clears_seq_Cons [of sel "set_altitude parts" "[msg_rest parts]"]
        never_clears_seq_Cons [of sel "msg_rest parts" "[]"] never_clears_seq_Nil [of sel]
  by (simp add: never_clears_def msg_fields_def)

lemma keeps_msg_rest:
  "(length parts = 21 \<Longrightarrow> keeps sel (set_on_ground_last parts)) \<Longrightarrow>
   keeps sel (seq [set_ground_speed parts, set_track parts, set_latitude parts,
                   set_longitude parts, set_vertical_rate parts, set_squawk parts,
                   set_squawk_alert parts, set_emergency parts, set_spi parts,
                   set_on_ground parts]) \<Longrightarrow>
   keeps sel (msg_rest parts)"
  by (simp add: keeps_def msg_rest_def)

lemma never_clears_msg_rest:
  "(length parts = 21 \<Longrightarrow> never_clears sel (set_on_ground_last parts)) \<Longrightarrow>
   never_clears sel (seq [set_ground_speed parts, set_track parts, set_latitude parts,
                   set_longitude parts, set_vertical_rate parts, set_squawk parts,
                   set_squawk_alert parts, set_emergency parts, set_spi parts,
                   set_on_ground parts]) \<Longrightarrow>
   never_clears sel (msg_rest parts)"
  by (simp add: never_clears_def msg_rest_def)

lemma shape_set_message_type:
  "state_of (set_message_type parts m) = m
   \<or> (0 < length (parts) \<and> parts ! 0 \<noteq> [] \<and> (\<exists>v. state_of (set_message_type parts m) = m\<lparr>message_type := Some v\<rparr>))"
  by (auto simp: set_message_type_def item_def split: sum.splits option.splits)

lemma keeps_other_set_message_type:
  "(\<And>v m. sel (m\<lparr>message_type := v\<rparr>) = sel m) \<Longrightarrow> keeps sel (set_message_type parts)"
  using shape_set_message_type [of parts] by (rule_tac upd = "\<lambda>v m. m\<lparr>message_type := v\<rparr>" in keeps_by_shape) blast+

lemma keeps_own_set_message_type:
  "\<not> (0 < length (parts) \<and> parts ! 0 \<noteq> []) \<Longrightarrow> keeps sel (set_message_type parts)"
  using shape_set_message_type [of parts] by (auto simp: keeps_def)

lemma never_clears_set_message_type: "never_clears message_type (set_message_type parts)"
  using shape_set_message_type [of parts]
  by (rule_tac upd = "\<lambda>v m. m\<lparr>message_type := v\<rparr>" in never_clears_by_shape) (blast, simp)

lemma shape_set_transmission_type:
  "state_of (set_transmission_type parts m) = m
   \<or> (1 < length (parts) \<and> parts ! 1 \<noteq> [] \<and> (\<exists>v. state_of (set_transmission_type parts m) = m\<lparr>transmission_type := Some v\<rparr>))"
  by (auto simp: set_transmission_type_def int_field_def item_def split: sum.splits option.splits)

lemma keeps_other_set_transmission_type:
  "(\<And>v m. sel (m\<lparr>transmission_type := v\<rparr>) = sel m) \<Longrightarrow> keeps sel (set_transmission_type parts)"
  using shape_set_transmission_type [of parts] by (rule_tac upd = "\<lambda>v m. m\<lparr>transmission_type := v\<rparr>" in keeps_by_shape) blast+

lemma keeps_own_set_transmission_type:
  "\<not> (1 < length (parts) \<and> parts ! 1 \<noteq> []) \<Longrightarrow> keeps sel (set_transmission_type parts)"
  using shape_set_transmission_type [of parts] by (auto simp: keeps_def)

lemma never_clears_set_transmission_type: "never_clears transmission_type (set_transmission_type parts)"
  using shape_set_transmission_type [of parts]
  by (rule_tac upd = "\<lambda>v m. m\<lparr>transmission_type := v\<rparr>" in never_clears_by_shape) (blast, simp)

lemma shape_set_session_id:
  "state_of (set_session_id parts m) = m
   \<or> (2 < length (parts) \<and> parts ! 2 \<noteq> [] \<and> parts ! 2 \<noteq> ''111'' \<and> (\<exists>v. state_of (set_session_id parts m) = m\<lparr>session_id := Some v\<rparr>))"
  by (auto simp: set_session_id_def item_def split: sum.splits option.splits)

lemma keeps_other_set_session_id:
  "(\<And>v m. sel (m\<lparr>session_id := v\<rparr>) = sel m) \<Longrightarrow> keeps sel (set_session_id parts)"
  using shape_set_session_id [of parts] by (rule_tac upd = "\<lambda>v m. m\<lparr>session_id := v\<rparr>" in keeps_by_shape) blast+

lemma keeps_own_set_session_id:
  "\<not> (2 < length (parts) \<and> parts ! 2 \<noteq> [] \<and> parts ! 2 \<noteq> ''111'') \<Longrightarrow> keeps sel (set_session_id parts)"
  using shape_set_session_id [of parts] by (auto simp: keeps_def)

lemma never_clears_set_session_id: "never_clears session_id (set_session_id parts)"
  using shape_set_session_id [of parts]
  by (rule_tac upd = "\<lambda>v m. m\<lparr>session_id := v\<rparr>" in never_clears_by_shape) (blast, simp)

lemma shape_set_aircraft_id:
  "state_of (set_aircraft_id parts m) = m
   \<or> (3 < length (parts) \<and> parts ! 3 \<noteq> [] \<and> parts ! 3 \<noteq> ''11111'' \<and> (\<exists>v. state_of (set_aircraft_id parts m) = m\<lparr>aircraft_id := Some v\<rparr>))"
  by (auto simp: set_aircraft_id_def item_def split: sum.splits option.splits)

lemma keeps_other_set_aircraft_id:
  "(\<And>v m. sel (m\<lparr>aircraft_id := v\<rparr>) = sel m) \<Longrightarrow> keeps sel (set_aircraft_id parts)"
  using shape_set_aircraft_id [of parts] by (rule_tac upd = "\<lambda>v m. m\<lparr>aircraft_id := v\<rparr>" in keeps_by_shape) blast+

lemma keeps_own_set_aircraft_id:
  "\<not> (3 < length (parts) \<and> parts ! 3 \<noteq> [] \<and> parts ! 3 \<noteq> ''11111'') \<Longrightarrow> keeps sel (set_aircraft_id parts)"
  using shape_set_aircraft_id [of parts] by (auto simp: keeps_def)

lemma never_clears_set_aircraft_id: "never_clears aircraft_id (set_aircraft_id parts)"
  using shape_set_aircraft_id [of parts]
  by (rule_tac upd = "\<lambda>v m. m\<lparr>aircraft_id := v\<rparr>" in never_clears_by_shape) (blast, simp)

lemma shape_set_hexident:
  "state_of (set_hexident parts m) = m
   \<or> (4 < length (parts) \<and> parts ! 4 \<noteq> [] \<and> (\<exists>v. state_of (set_hexident parts m) = m\<lparr>hexident := Some v\<rparr>))"
  by (auto simp: set_hexident_def item_def split: sum.splits option.splits)

lemma keeps_other_set_hexident:
  "(\<And>v m. sel (m\<lparr>hexident := v\<rparr>) = sel m) \<Longrightarrow> keeps sel (set_hexident parts)"
  using shape_set_hexident [of parts] by (rule_tac upd = "\<lambda>v m. m\<lparr>hexident := v\<rparr>" in keeps_by_shape) blast+

lemma keeps_own_set_hexident:
  "\<not> (4 < length (parts) \<and> parts ! 4 \<noteq> []) \<Longrightarrow> keeps sel (set_hexident parts)"
  using shape_set_hexident [of parts] by (auto simp: keeps_def)

lemma never_clears_set_hexident: "never_clears hexident (set_hexident parts)"
  using shape_set_hexident [of parts]
  by (rule_tac upd = "\<lambda>v m. m\<lparr>hexident := v\<rparr>" in never_clears_by_shape) (blast, simp)

lemma shape_set_flight_id:
  "state_of (set_flight_id parts m) = m
   \<or> (5 < length (parts) \<and> parts ! 5 \<noteq> [] \<and> parts ! 5 \<noteq> ''111111'' \<and> (\<exists>v. state_of (set_flight_id parts m) = m\<lparr>flight_id := Some v\<rparr>))"
  by (auto simp: set_flight_id_def item_def split: sum.splits option.splits)

lemma keeps_other_set_flight_id:
  "(\<And>v m. sel (m\<lparr>flight_id := v\<rparr>) = sel m) \<Longrightarrow> keeps sel (set_flight_id parts)"
  using shape_set_flight_id [of parts] by (rule_tac upd = "\<lambda>v m. m\<lparr>flight_id := v\<rparr>" in keeps_by_shape) blast+

lemma keeps_own_set_flight_id:
  "\<not> (5 < length (parts) \<and> parts ! 5 \<noteq> [] \<and> parts ! 5 \<noteq> ''111111'') \<Longrightarrow> keeps sel (set_flight_id parts)"
  using shape_set_flight_id [of parts] by (auto simp: keeps_def)

lemma never_clears_set_flight_id: "never_clears flight_id (set_flight_id parts)"
  using shape_set_flight_id [of parts]
  by (rule_tac upd = "\<lambda>v m. m\<lparr>flight_id := v\<rparr>" in never_clears_by_shape) (blast, simp)

lemma shape_set_generation_time:
  "state_of (set_generation_time parts m) = m
   \<or> (7 < length (parts) \<and> parts ! 6 \<noteq> [] \<and> parts ! 7 \<noteq> [] \<and> (\<exists>v. state_of (set_generation_time parts m) = m\<lparr>generation_time := Some v\<rparr>))"
  by (auto simp: set_generation_time_def item_def split: sum.splits option.splits)

lemma keeps_other_set_generation_time:
  "(\<And>v m. sel (m\<lparr>generation_time := v\<rparr>) = sel m) \<Longrightarrow> keeps sel (set_generation_time parts)"
  using shape_set_generation_time [of parts] by (rule_tac upd = "\<lambda>v m. m\<lparr>generation_time := v\<rparr>" in keeps_by_shape) blast+

lemma keeps_own_set_generation_time:
  "\<not> (7 < length (parts) \<and> parts ! 6 \<noteq> [] \<and> parts ! 7 \<noteq> []) \<Longrightarrow> keeps sel (set_generation_time parts)"
  using shape_set_generation_time [of parts] by (auto simp: keeps_def)

lemma never_clears_set_generation_time: "never_clears generation_time (set_generation_time parts)"
  using shape_set_generation_time [of parts]
  by (rule_tac upd = "\<lambda>v m. m\<lparr>generation_time := v\<rparr>" in never_clears_by_shape) (blast, simp)

lemma shape_set_record_time:
  "state_of (set_record_time parts m) = m
   \<or> (9 < length (parts) \<and> parts ! 8 \<noteq> [] \<and> parts ! 9 \<noteq> [] \<and> (\<exists>v. state_of (set_record_time parts m) = m\<lparr>record_time := Some v\<rparr>))"
  by (auto simp: set_record_time_def item_def split: sum.splits option.splits)

lemma keeps_other_set_record_time:
  "(\<And>v m. sel (m\<lparr>record_time := v\<rparr>) = sel m) \<Longrightarrow> keeps sel (set_record_time parts)"
  using shape_set_record_time [of parts] by (rule_tac upd = "\<lambda>v m. m\<lparr>record_time := v\<rparr>" in keeps_by_shape) blast+

lemma keeps_own_set_record_time:
  "\<not> (9 < length (parts) \<and> parts ! 8 \<noteq> [] \<and> parts ! 9 \<noteq> []) \<Longrightarrow> keeps sel (set_record_time parts)"
  using shape_set_record_time [of parts] by (auto simp: keeps_def)

lemma never_clears_set_record_time: "never_clears record_time (set_record_time parts)"
  using shape_set_record_time [of parts]
  by (rule_tac upd = "\<lambda>v m. m\<lparr>record_time := v\<rparr>" in never_clears_by_shape) (blast, simp)

lemma shape_set_callsign:
  "state_of (set_callsign parts m) = m
   \<or> (10 < length (parts) \<and> parts ! 10 \<noteq> [] \<and> (\<exists>v. state_of (set_callsign parts m) = m\<lparr>callsign := Some v\<rparr>))"
  by (auto simp: set_callsign_def item_def split: sum.splits option.splits)

lemma keeps_other_set_callsign:
  "(\<And>v m. sel (m\<lparr>callsign := v\<rparr>) = sel m) \<Longrightarrow> keeps sel (set_callsign parts)"
  using shape_set_callsign [of parts] by (rule_tac upd = "\<lambda>v m. m\<lparr>callsign := v\<rparr>" in keeps_by_shape) blast+

lemma keeps_own_set_callsign:
  "\<not> (10 < length (parts) \<and> parts ! 10 \<noteq> []) \<Longrightarrow> keeps sel (set_callsign parts)"
  using shape_set_callsign [of parts] by (auto simp: keeps_def)

lemma never_clears_set_callsign: "never_clears callsign (set_callsign parts)"
  using shape_set_callsign [of parts]
  by (rule_tac upd = "\<lambda>v m. m\<lparr>callsign := v\<rparr>" in never_clears_by_shape) (blast, simp)

lemma shape_set_altitude:
  "state_of (set_altitude parts m) = m
   \<or> (11 < length (parts) \<and> parts ! 11 \<noteq> [] \<and> (\<exists>v. state_of (set_altitude parts m) = m\<lparr>altitude := Some v\<rparr>))"
  by (auto simp: set_altitude_def int_field_def item_def split: sum.splits option.splits)

lemma keeps_other_set_altitude:
  "(\<And>v m. sel (m\<lparr>altitude := v\<rparr>) = sel m) \<Longrightarrow> keeps sel (set_altitude parts)"
  using shape_set_altitude [of parts] by (rule_tac upd = "\<lambda>v m. m\<lparr>altitude := v\<rparr>" in keeps_by_shape) blast+

lemma keeps_own_set_altitude:
  "\<not> (11 < length (parts) \<and> parts ! 11 \<noteq> []) \<Longrightarrow> keeps sel (set_altitude parts)"
  using shape_set_altitude [of parts] by (auto simp: keeps_def)

lemma never_clears_set_altitude: "never_clears altitude (set_altitude parts)"
  using shape_set_altitude [of parts]
  by (rule_tac upd = "\<lambda>v m. m\<lparr>altitude := v\<rparr>" in never_clears_by_shape) (blast, simp)

lemma shape_set_ground_speed:
  "state_of (set_ground_speed parts m) = m
   \<or> (12 < length (parts) \<and> parts ! 12 \<noteq> [] \<and> (\<exists>v. state_of (set_ground_speed parts m) = m\<lparr>ground_speed := Some v\<rparr>))"
  by (auto simp: set_ground_speed_def float_field_def item_def split: sum.splits option.splits)

lemma keeps_other_set_ground_speed:
  "(\<And>v m. sel (m\<lparr>ground_speed := v\<rparr>) = sel m) \<Longrightarrow> keeps sel (set_ground_speed parts)"
  using shape_set_ground_speed [of parts] by (rule_tac upd = "\<lambda>v m. m\<lparr>ground_speed := v\<rparr>" in keeps_by_shape) blast+

lemma keeps_own_set_ground_speed:
  "\<not> (12 < length (parts) \<and> parts ! 12 \<noteq> []) \<Longrightarrow> keeps sel (set_ground_speed parts)"
  using shape_set_ground_speed [of parts] by (auto simp: keeps_def)

lemma never_clears_set_ground_speed: "never_clears ground_speed (set_ground_speed parts)"
  using shape_set_ground_speed [of parts]
  by (rule_tac upd = "\<lambda>v m. m\<lparr>ground_speed := v\<rparr>" in never_clears_by_shape) (blast, simp)

lemma shape_set_track:
  "state_of (set_track parts m) = m
   \<or> (13 < length (parts) \<and> parts ! 13 \<noteq> [] \<and> (\<exists>v. state_of (set_track parts m) = m\<lparr>track := Some v\<rparr>))"
  by (auto simp: set_track_def float_field_def item_def split: sum.splits option.splits)

lemma keeps_other_set_track:
  "(\<And>v m. sel (m\<lparr>track := v\<rparr>) = sel m) \<Longrightarrow> keeps sel (set_track parts)"
  using shape_set_track [of parts] by (rule_tac upd = "\<lambda>v m. m\<lparr>track := v\<rparr>" in keeps_by_shape) blast+

lemma keeps_own_set_track:
  "\<not> (13 < length (parts) \<and> parts ! 13 \<noteq> []) \<Longrightarrow> keeps sel (set_track parts)"
  using shape_set_track [of parts] by (auto simp: keeps_def)

lemma never_clears_set_track: "never_clears track (set_track parts)"
  using shape_set_track [of parts]
  by (rule_tac upd = "\<lambda>v m. m\<lparr>track := v\<rparr>" in never_clears_by_shape) (blast, simp)

lemma shape_set_latitude:
  "state_of (set_latitude parts m) = m
   \<or> (14 < length (parts) \<and> parts ! 14 \<noteq> [] \<and> (\<exists>v. state_of (set_latitude parts m) = m\<lparr>latitude := Some v\<rparr>))"
  by (auto simp: set_latitude_def float_field_def item_def split: sum.splits option.splits)

lemma keeps_other_set_latitude:
  "(\<And>v m. sel (m\<lparr>latitude := v\<rparr>) = sel m) \<Longrightarrow> keeps sel (set_latitude parts)"
  using shape_set_latitude [of parts] by (rule_tac upd = "\<lambda>v m. m\<lparr>latitude := v\<rparr>" in keeps_by_shape) blast+

lemma keeps_own_set_latitude:
  "\<not> (14 < length (parts) \<and> parts ! 14 \<noteq> []) \<Longrightarrow> keeps sel (set_latitude parts)"
  using shape_set_latitude [of parts] by (auto simp: keeps_def)

lemma never_clears_set_latitude: "never_clears latitude (set_latitude parts)"
  using shape_set_latitude [of parts]
  by (rule_tac upd = "\<lambda>v m. m\<lparr>latitude := v\<rparr>" in never_clears_by_shape) (blast, simp)

lemma shape_set_longitude:
  "state_of (set_longitude parts m) = m
   \<or> (15 < length (parts) \<and> parts ! 15 \<noteq> [] \<and> (\<exists>v. state_of (set_longitude parts m) = m\<lparr>longitude := Some v\<rparr>))"
  by (auto simp: set_longitude_def float_field_def item_def split: sum.splits option.splits)

lemma keeps_other_set_longitude:
  "(\<And>v m. sel (m\<lparr>longitude := v\<rparr>) = sel m) \<Longrightarrow> keeps sel (set_longitude parts)"
  using shape_set_longitude [of parts] by (rule_tac upd = "\<lambda>v m. m\<lparr>longitude := v\<rparr>" in keeps_by_shape) blast+

lemma keeps_own_set_longitude:
  "\<not> (15 < length (parts) \<and> parts ! 15 \<noteq> []) \<Longrightarrow> keeps sel (set_longitude parts)"
  using shape_set_longitude [of parts] by (auto simp: keeps_def)

lemma never_clears_set_longitude: "never_clears longitude (set_longitude parts)"
  using shape_set_longitude [of parts]
  by (rule_tac upd = "\<lambda>v m. m\<lparr>longitude := v\<rparr>" in never_clears_by_shape) (blast, simp)

lemma shape_set_vertical_rate:
  "state_of (set_vertical_rate parts m) = m
   \<or> (16 < length (parts) \<and> parts ! 16 \<noteq> [] \<and> (\<exists>v. state_of (set_vertical_rate parts m) = m\<lparr>vertical_rate := Some v\<rparr>))"
  by (auto simp: set_vertical_rate_def int_field_def item_def split: sum.splits option.splits)

lemma keeps_other_set_vertical_rate:
  "(\<And>v m. sel (m\<lparr>vertical_rate := v\<rparr>) = sel m) \<Longrightarrow> keeps sel (set_vertical_rate parts)"
  using shape_set_vertical_rate [of parts] by (rule_tac upd = "\<lambda>v m. m\<lparr>vertical_rate := v\<rparr>" in keeps_by_shape) blast+

lemma keeps_own_set_vertical_rate:
  "\<not> (16 < length (parts) \<and> parts ! 16 \<noteq> []) \<Longrightarrow> keeps sel (set_vertical_rate parts)"
  using shape_set_vertical_rate [of parts] by (auto simp: keeps_def)

lemma never_clears_set_vertical_rate: "never_clears vertical_rate (set_vertical_rate parts)"
  using shape_set_vertical_rate [of parts]
  by (rule_tac upd = "\<lambda>v m. m\<lparr>vertical_rate := v\<rparr>" in never_clears_by_shape) (blast, simp)

lemma shape_set_squawk:
  "state_of (set_squawk parts m) = m
   \<or> (17 < length (parts) \<and> parts ! 17 \<noteq> [] \<and> (\<exists>v. state_of (set_squawk parts m) = m\<lparr>squawk := Some v\<rparr>))"
  by (auto simp: set_squawk_def int_field_def item_def split: sum.splits option.splits)

lemma keeps_other_set_squawk:
  "(\<And>v m. sel (m\<lparr>squawk := v\<rparr>) = sel m) \<Longrightarrow> keeps sel (set_squawk parts)"
  using shape_set_squawk [of parts] by (rule_tac upd = "\<lambda>v m. m\<lparr>squawk := v\<rparr>" in keeps_by_shape) blast+

lemma keeps_own_set_squawk:
  "\<not> (17 < length (parts) \<and> parts ! 17 \<noteq> []) \<Longrightarrow> keeps sel (set_squawk parts)"
  using shape_set_squawk [of parts] by (auto simp: keeps_def)

lemma never_clears_set_squawk: "never_clears squawk (set_squawk parts)"
  using shape_set_squawk [of parts]
  by (rule_tac upd = "\<lambda>v m. m\<lparr>squawk := v\<rparr>" in never_clears_by_shape) (blast, simp)

lemma shape_set_squawk_alert:
  "state_of (set_squawk_alert parts m) = m
   \<or> (18 < length (parts) \<and> parts ! 18 \<noteq> [] \<and> state_of (set_squawk_alert parts m) = m\<lparr>squawk_alert := parse_bool (parts ! 18)\<rparr>)"
  by (simp add: set_squawk_alert_def bool_field_def item_def)

lemma keeps_other_set_squawk_alert:
  "(\<And>v m. sel (m\<lparr>squawk_alert := v\<rparr>) = sel m) \<Longrightarrow> keeps sel (set_squawk_alert parts)"
  using shape_set_squawk_alert [of parts] by (rule_tac upd = "\<lambda>v m. m\<lparr>squawk_alert := v\<rparr>" in keeps_by_shape) blast+

lemma keeps_own_set_squawk_alert:
  "\<not> (18 < length (parts) \<and> parts ! 18 \<noteq> []) \<Longrightarrow> keeps sel (set_squawk_alert parts)"
  using shape_set_squawk_alert [of parts] by (auto simp: keeps_def)

lemma never_clears_set_squawk_alert:
  assumes "\<not> (18 < length (parts) \<and> parts ! 18 \<noteq> [] \<and> parse_bool (parts ! 18) = None)"
  shows "never_clears squawk_alert (set_squawk_alert parts)"
  unfolding never_clears_def
proof (intro allI impI)
  fix m :: message assume "squawk_alert m \<noteq> None"
  with assms shape_set_squawk_alert [of parts m]
  show "squawk_alert (state_of (set_squawk_alert parts m)) \<noteq> None" by auto
qed

lemma shape_set_emergency:
  "state_of (set_emergency parts m) = m
   \<or> (19 < length (parts) \<and> parts ! 19 \<noteq> [] \<and> state_of (set_emergency parts m) = m\<lparr>emergency := parse_bool (parts ! 19)\<rparr>)"
  by (simp add: set_emergency_def bool_field_def item_def)

lemma keeps_other_set_emergency:
  "(\<And>v m. sel (m\<lparr>emergency := v\<rparr>) = sel m) \<Longrightarrow> keeps sel (set_emergency parts)"
  using shape_set_emergency [of parts] by (rule_tac upd = "\<lambda>v m. m\<lparr>emergency := v\<rparr>" in keeps_by_shape) blast+

lemma keeps_own_set_emergency:
  "\<not> (19 < length (parts) \<and> parts ! 19 \<noteq> []) \<Longrightarrow> keeps sel (set_emergency parts)"
  using shape_set_emergency [of parts] by (auto simp: keeps_def)

lemma never_clears_set_emergency:
  assumes "\<not> (19 < length (parts) \<and> parts ! 19 \<noteq> [] \<and> parse_bool (parts ! 19) = None)"
  shows "never_clears emergency (set_emergency parts)"
  unfolding never_clears_def
proof (intro allI impI)
  fix m :: message assume "emergency m \<noteq> None"
  with assms shape_set_emergency [of parts m]
  show "emergency (state_of (set_emergency parts m)) \<noteq> None" by auto
qed

lemma shape_set_spi:
  "state_of (set_spi parts m) = m
   \<or> (20 < length (parts) \<and> parts ! 20 \<noteq> [] \<and> state_of (set_spi parts m) = m\<lparr>spi := parse_bool (parts ! 20)\<rparr>)"
  by (simp add: set_spi_def bool_field_def item_def)

lemma keeps_other_set_spi:
  "(\<And>v m. sel (m\<lparr>spi := v\<rparr>) = sel m) \<Longrightarrow> keeps sel (set_spi parts)"
  using shape_set_spi [of parts] by (rule_tac upd = "\<lambda>v m. m\<lparr>spi := v\<rparr>" in keeps_by_shape) blast+

lemma keeps_own_set_spi:
  "\<not> (20 < length (parts) \<and> parts ! 20 \<noteq> []) \<Longrightarrow> keeps sel (set_spi parts)"
  using shape_set_spi [of parts] by (auto simp: keeps_def)

lemma never_clears_set_spi:
  assumes "\<not> (20 < length (parts) \<and> parts ! 20 \<noteq> [] \<and> parse_bool (parts ! 20) = None)"
  shows "never_clears spi (set_spi parts)"
  unfolding never_clears_def
proof (intro allI impI)
  fix m :: message assume "spi m \<noteq> None"
  with assms shape_set_spi [of parts m]
  show "spi (state_of (set_spi parts m)) \<noteq> None" by auto
qed

lemma shape_set_on_ground:
  "state_of (set_on_ground parts m) = m
   \<or> (21 < length (parts) \<and> parts ! 21 \<noteq> [] \<and> state_of (set_on_ground parts m) = m\<lparr>on_ground := parse_bool (parts ! 21)\<rparr>)"
  by (simp add: set_on_ground_def bool_field_def item_def)

lemma keeps_other_set_on_ground:
  "(\<And>v m. sel (m\<lparr>on_ground := v\<rparr>) = sel m) \<Longrightarrow> keeps sel (set_on_ground parts)"
  using shape_set_on_ground [of parts] by (rule_tac upd = "\<lambda>v m. m\<lparr>on_ground := v\<rparr>" in keeps_by_shape) blast+

lemma keeps_own_set_on_ground:
  "\<not> (21 < length (parts) \<and> parts ! 21 \<noteq> []) \<Longrightarrow> keeps sel (set_on_ground parts)"
  using shape_set_on_ground [of parts] by (auto simp: keeps_def)

lemma never_clears_set_on_ground:
  assumes "\<not> (21 < length (parts) \<and> parts ! 21 \<noteq> [] \<and> parse_bool (parts ! 21) = None)"
  shows "never_clears on_ground (set_on_ground parts)"
  unfolding never_clears_def
proof (intro allI impI)
  fix m :: message assume "on_ground m \<noteq> None"
  with assms shape_set_on_ground [of parts m]
  show "on_ground (state_of (set_on_ground parts m)) \<noteq> None" by auto
qed

lemma shape_set_on_ground_last:
  "state_of (set_on_ground_last parts m) = m
   \<or> (parts \<noteq> [] \<and> last parts \<noteq> []
      \<and> state_of (set_on_ground_last parts m) = m\<lparr>on_ground := parse_bool (last parts)\<rparr>)"
  by (simp add: set_on_ground_last_def item_last_def)

lemma keeps_other_set_on_ground_last:
  "(\<And>v m. sel (m\<lparr>on_ground := v\<rparr>) = sel m) \<Longrightarrow> keeps sel (set_on_ground_last parts)"
  using shape_set_on_ground_last [of parts]
  by (rule_tac upd = "\<lambda>v m. m\<lparr>on_ground := v\<rparr>" in keeps_by_shape) blast+

lemma never_clears_set_on_ground_last:
  assumes "length parts = 21" and "\<not> (parts ! 20 \<noteq> [] \<and> parse_bool (parts ! 20) = None)"
  shows "never_clears on_ground (set_on_ground_last parts)"
  unfolding never_clears_def
proof (intro allI impI)
  fix m :: message assume "on_ground m \<noteq> None"
  with assms shape_set_on_ground_last [of parts m]
  show "on_ground (state_of (set_on_ground_last parts m)) \<noteq> None"
    by (auto simp: last_21)
qed

lemma keeps_own_set_on_ground_last:
  "length parts = 21 \<Longrightarrow> parts ! 20 = [] \<Longrightarrow> keeps sel (set_on_ground_last parts)"
  using shape_set_on_ground_last [of parts] by (auto simp: keeps_def last_21)

lemmas keeps_other = keeps_other_set_message_type keeps_other_set_transmission_type keeps_other_set_session_id keeps_other_set_aircraft_id keeps_other_set_hexident keeps_other_set_flight_id keeps_other_set_generation_time keeps_other_set_record_time keeps_other_set_callsign keeps_other_set_altitude keeps_other_set_ground_speed keeps_other_set_track keeps_other_set_latitude keeps_other_set_longitude keeps_other_set_vertical_rate keeps_other_set_squawk keeps_other_set_squawk_alert keeps_other_set_emergency keeps_other_set_spi keeps_other_set_on_ground keeps_other_set_on_ground_last

lemmas keeps_structure = keeps_seq_Cons keeps_seq_Nil keeps_msg_fields keeps_msg_rest

lemmas never_clears_structure =
  never_clears_seq_Cons never_clears_seq_Nil never_clears_msg_fields never_clears_msg_rest

lemma parse_parts_keeps_message_type:
  assumes "\<not> (0 < length (parts) \<and> parts ! 0 \<noteq> [])"
  shows "keeps message_type (parse_parts parts)"
  unfolding parse_parts_def
  by (intro keeps_structure)
     (use assms in \<open>simp_all add: keeps_other keeps_own_set_message_type\<close>)

lemma parse_parts_never_clears_message_type: "never_clears message_type (parse_parts parts)"
  unfolding parse_parts_def
  by (intro never_clears_structure)
     (simp_all add: never_clears_set_message_type keeps_never_clears keeps_other)

lemma parse_parts_keeps_transmission_type:
  assumes "\<not> (1 < length (parts) \<and> parts ! 1 \<noteq> [])"
  shows "keeps transmission_type (parse_parts parts)"
  unfolding parse_parts_def
  by (intro keeps_structure)
     (use assms in \<open>simp_all add: keeps_other keeps_own_set_transmission_type\<close>)

lemma parse_parts_never_clears_transmission_type: "never_clears transmission_type (parse_parts parts)"
  unfolding parse_parts_def
  by (intro never_clears_structure)
     (simp_all add: never_clears_set_transmission_type keeps_never_clears keeps_other)

lemma parse_parts_keeps_session_id:
  assumes "\<not> (2 < length (parts) \<and> parts ! 2 \<noteq> [] \<and> parts ! 2 \<noteq> ''111'')"
  shows "keeps session_id (parse_parts parts)"
  unfolding parse_parts_def
  by (intro keeps_structure)
     (use assms in \<open>simp_all add: keeps_other keeps_own_set_session_id\<close>)

lemma parse_parts_never_clears_session_id: "never_clears session_id (parse_parts parts)"
  unfolding parse_parts_def
  by (intro never_clears_structure)
     (simp_all add: never_clears_set_session_id keeps_never_clears keeps_other)

lemma parse_parts_keeps_aircraft_id:
  assumes "\<not> (3 < length (parts) \<and> parts ! 3 \<noteq> [] \<and> parts ! 3 \<noteq> ''11111'')"
  shows "keeps aircraft_id (parse_parts parts)"
  unfolding parse_parts_def
  by (intro keeps_structure)
     (use assms in \<open>simp_all add: keeps_other keeps_own_set_aircraft_id\<close>)

lemma parse_parts_never_clears_aircraft_id: "never_clears aircraft_id (parse_parts parts)"
  unfolding parse_parts_def
  by (intro never_clears_structure)
     (simp_all add: never_clears_set_aircraft_id keeps_never_clears keeps_other)

lemma parse_parts_keeps_hexident:
  assumes "\<not> (4 < length (parts) \<and> parts ! 4 \<noteq> [])"
  shows "keeps hexident (parse_parts parts)"
  unfolding parse_parts_def
  by (intro keeps_structure)
     (use assms in \<open>simp_all add: keeps_other keeps_own_set_hexident\<close>)

lemma parse_parts_never_clears_hexident: "never_clears hexident (parse_parts parts)"
  unfolding parse_parts_def
  by (intro never_clears_structure)
     (simp_all add: never_clears_set_hexident keeps_never_clears keeps_other)

lemma parse_parts_keeps_flight_id:
  assumes "\<not> (5 < length (parts) \<and> parts ! 5 \<noteq> [] \<and> parts ! 5 \<noteq> ''111111'')"
  shows "keeps flight_id (parse_parts parts)"
  unfolding parse_parts_def
  by (intro keeps_structure)
     (use assms in \<open>simp_all add: keeps_other keeps_own_set_flight_id\<close>)

lemma parse_parts_never_clears_flight_id: "never_clears flight_id (parse_parts parts)"
  unfolding parse_parts_def
  by (intro never_clears_structure)
     (simp_all add: never_clears_set_flight_id keeps_never_clears keeps_other)

lemma parse_parts_keeps_generation_time:
  assumes "\<not> (7 < length (parts) \<and> parts ! 6 \<noteq> [] \<and> parts ! 7 \<noteq> [])"
  shows "keeps generation_time (parse_parts parts)"
  unfolding parse_parts_def
  by (intro keeps_structure)
     (use assms in \<open>simp_all add: keeps_other keeps_own_set_generation_time\<close>)

lemma parse_parts_never_clears_generation_time: "never_clears generation_time (parse_parts parts)"
  unfolding parse_parts_def
  by (intro never_clears_structure)
     (simp_all add: never_clears_set_generation_time keeps_never_clears keeps_other)

lemma parse_parts_keeps_record_time:
  assumes "\<not> (9 < length (parts) \<and> parts ! 8 \<noteq> [] \<and> parts ! 9 \<noteq> [])"
  shows "keeps record_time (parse_parts parts)"
  unfolding parse_parts_def
  by (intro keeps_structure)
     (use assms in \<open>simp_all add: keeps_other keeps_own_set_record_time\<close>)

lemma parse_parts_never_clears_record_time: "never_clears record_time (parse_parts parts)"
  unfolding parse_parts_def
  by (intro never_clears_structure)
     (simp_all add: never_clears_set_record_time keeps_never_clears keeps_other)

lemma parse_parts_keeps_callsign:
  assumes "\<not> (10 < length (parts) \<and> parts ! 10 \<noteq> [])"
  shows "keeps callsign (parse_parts parts)"
  unfolding parse_parts_def
  by (intro keeps_structure)
     (use assms in \<open>simp_all add: keeps_other keeps_own_set_callsign\<close>)

lemma parse_parts_never_clears_callsign: "never_clears callsign (parse_parts parts)"
  unfolding parse_parts_def
  by (intro never_clears_structure)
     (simp_all add: never_clears_set_callsign keeps_never_clears keeps_other)

lemma parse_parts_keeps_altitude:
  assumes "\<not> (11 < length (parts) \<and> parts ! 11 \<noteq> [])"
  shows "keeps altitude (parse_parts parts)"
  unfolding parse_parts_def
  by (intro keeps_structure)
     (use assms in \<open>simp_all add: keeps_other keeps_own_set_altitude\<close>)

lemma parse_parts_never_clears_altitude: "never_clears altitude (parse_parts parts)"
  unfolding parse_parts_def
  by (intro never_clears_structure)
     (simp_all add: never_clears_set_altitude keeps_never_clears keeps_other)

lemma parse_parts_keeps_ground_speed:
  assumes "\<not> (12 < length (parts) \<and> parts ! 12 \<noteq> [])"
  shows "keeps ground_speed (parse_parts parts)"
  unfolding parse_parts_def
  by (intro keeps_structure)
     (use assms in \<open>simp_all add: keeps_other keeps_own_set_ground_speed\<close>)

lemma parse_parts_never_clears_ground_speed: "never_clears ground_speed (parse_parts parts)"
  unfolding parse_parts_def
  by (intro never_clears_structure)
     (simp_all add: never_clears_set_ground_speed keeps_never_clears keeps_other)

lemma parse_parts_keeps_track:
  assumes "\<not> (13 < length (parts) \<and> parts ! 13 \<noteq> [])"
  shows "keeps track (parse_parts parts)"
  unfolding parse_parts_def
  by (intro keeps_structure)
     (use assms in \<open>simp_all add: keeps_other keeps_own_set_track\<close>)

lemma parse_parts_never_clears_track: "never_clears track (parse_parts parts)"
  unfolding parse_parts_def
  by (intro never_clears_structure)
     (simp_all add: never_clears_set_track keeps_never_clears keeps_other)

lemma parse_parts_keeps_latitude:
  assumes "\<not> (14 < length (parts) \<and> parts ! 14 \<noteq> [])"
  shows "keeps latitude (parse_parts parts)"
  unfolding parse_parts_def
  by (intro keeps_structure)
     (use assms in \<open>simp_all add: keeps_other keeps_own_set_latitude\<close>)

lemma parse_parts_never_clears_latitude: "never_clears latitude (parse_parts parts)"
  unfolding parse_parts_def
  by (intro never_clears_structure)
     (simp_all add: never_clears_set_latitude keeps_never_clears keeps_other)

lemma parse_parts_keeps_longitude:
  assumes "\<not> (15 < length (parts) \<and> parts ! 15 \<noteq> [])"
  shows "keeps longitude (parse_parts parts)"
  unfolding parse_parts_def
  by (intro keeps_structure)
     (use assms in \<open>simp_all add: keeps_other keeps_own_set_longitude\<close>)

lemma parse_parts_never_clears_longitude: "never_clears longitude (parse_parts parts)"
  unfolding parse_parts_def
  by (intro never_clears_structure)
     (simp_all add: never_clears_set_longitude keeps_never_clears keeps_other)

lemma parse_parts_keeps_vertical_rate:
  assumes "\<not> (16 < length (parts) \<and> parts ! 16 \<noteq> [])"
  shows "keeps vertical_rate (parse_parts parts)"
  unfolding parse_parts_def
  by (intro keeps_structure)
     (use assms in \<open>simp_all add: keeps_other keeps_own_set_vertical_rate\<close>)

lemma parse_parts_never_clears_vertical_rate: "never_clears vertical_rate (parse_parts parts)"
  unfolding parse_parts_def
  by (intro never_clears_structure)
     (simp_all add: never_clears_set_vertical_rate keeps_never_clears keeps_other)

lemma parse_parts_keeps_squawk:
  assumes "\<not> (17 < length (parts) \<and> parts ! 17 \<noteq> [])"
  shows "keeps squawk (parse_parts parts)"
  unfolding parse_parts_def
  by (intro keeps_structure)
     (use assms in \<open>simp_all add: keeps_other keeps_own_set_squawk\<close>)

lemma parse_parts_never_clears_squawk: "never_clears squawk (parse_parts parts)"
  unfolding parse_parts_def
  by (intro never_clears_structure)
     (simp_all add: never_clears_set_squawk keeps_never_clears keeps_other)

lemma parse_parts_keeps_squawk_alert:
  assumes "\<not> (18 < length (parts) \<and> parts ! 18 \<noteq> [])"
  shows "keeps squawk_alert (parse_parts parts)"
  unfolding parse_parts_def
  by (intro keeps_structure)
     (use assms in \<open>simp_all add: keeps_other keeps_own_set_squawk_alert\<close>)

lemma parse_parts_never_clears_squawk_alert:
  assumes "\<not> (18 < length (parts) \<and> parts ! 18 \<noteq> [] \<and> parse_bool (parts ! 18) = None)"
  shows "never_clears squawk_alert (parse_parts parts)"
  unfolding parse_parts_def
  by (intro never_clears_structure)
     (use assms in \<open>simp_all add: never_clears_set_squawk_alert keeps_never_clears keeps_other\<close>)

lemma parse_parts_keeps_emergency:
  assumes "\<not> (19 < length (parts) \<and> parts ! 19 \<noteq> [])"
  shows "keeps emergency (parse_parts parts)"
  unfolding parse_parts_def
  by (intro keeps_structure)
     (use assms in \<open>simp_all add: keeps_other keeps_own_set_emergency\<close>)

lemma parse_parts_never_clears_emergency:
  assumes "\<not> (19 < length (parts) \<and> parts ! 19 \<noteq> [] \<and> parse_bool (parts ! 19) = None)"
  shows "never_clears emergency (parse_parts parts)"
  unfolding parse_parts_def
  by (intro never_clears_structure)
     (use assms in \<open>simp_all add: never_clears_set_emergency keeps_never_clears keeps_other\<close>)

lemma parse_parts_keeps_spi:
  assumes "\<not> (20 < length (parts) \<and> parts ! 20 \<noteq> [])"
  shows "keeps spi (parse_parts parts)"
  unfolding parse_parts_def
  by (intro keeps_structure)
     (use assms in \<open>simp_all add: keeps_other keeps_own_set_spi\<close>)

lemma parse_parts_never_clears_spi:
  assumes "\<not> (20 < length (parts) \<and> parts ! 20 \<noteq> [] \<and> parse_bool (parts ! 20) = None)"
  shows "never_clears spi (parse_parts parts)"
  unfolding parse_parts_def
  by (intro never_clears_structure)
     (use assms in \<open>simp_all add: never_clears_set_spi keeps_never_clears keeps_other\<close>)

lemma parse_parts_keeps_on_ground:
  assumes "\<not> (21 < length (parts) \<and> parts ! 21 \<noteq> [])" and "\<not> (length parts = 21 \<and> parts ! 20 \<noteq> [])"
  shows "keeps on_ground (parse_parts parts)"
  unfolding parse_parts_def
  by (intro keeps_structure)
     (use assms in \<open>simp_all add: keeps_other keeps_own_set_on_ground keeps_own_set_on_ground_last\<close>)

lemma parse_parts_never_clears_on_ground:
  assumes "\<not> (21 < length (parts) \<and> parts ! 21 \<noteq> [] \<and> parse_bool (parts ! 21) = None)" and "\<not> (length parts = 21 \<and> parts ! 20 \<noteq> [] \<and> parse_bool (parts ! 20) = None)"
  shows "never_clears on_ground (parse_parts parts)"
  unfolding parse_parts_def
  by (intro never_clears_structure)
     (use assms in \<open>simp_all add: never_clears_set_on_ground never_clears_set_on_ground_last keeps_never_clears keeps_other\<close>)






lemma from_string_Inl_or_Inr: "(\<exists>m. from_string line = Inr m) \<longleftrightarrow> (\<exists>m. parse_parts (parts_of line) init_message = Done m)"
  by (simp add: from_string_Inr)


















lemma upper_char_code:
  "(if c \<in> set ''abcdefghijklmnopqrstuvwxyz''
    then (of_char (upper_char c) :: nat) + 32 = of_char c
    else upper_char c = c)"
  by (auto simp: upper_char_def)

lemma upper_code:
  "length (upper s) = length s
   \<and> (\<forall>i<length s.
         if s ! i \<in> set ''abcdefghijklmnopqrstuvwxyz''
         then (of_char (upper s ! i) :: nat) + 32 = of_char (s ! i)
         else upper s ! i = s ! i)"
  using upper_char_code by (simp add: upper_def)

lemma digit_val_code: "is_digit c \<Longrightarrow> digit_val c = of_char c - 48"
  by (auto simp: is_digit_def digit_val_def)

lemma digits_acc_digits:
  "list_all is_digit ds \<Longrightarrow>
   digits_acc a ds = Some (foldl (\<lambda>a c. 10 * a + (of_char c - 48)) a ds)"
  by (induction ds arbitrary: a) (simp_all add: digit_val_code)

lemma strip_with_id:
  assumes "s \<noteq> []" and "\<not> sp (hd s)" and "\<not> sp (last s)"
  shows "strip_with sp s = s"
proof -
  from assms have "dropWhile sp s = s" by (cases s) auto
  moreover from assms have "dropWhile sp (rev s) = rev s"
    by (cases s rule: rev_cases) auto
  ultimately show ?thesis by (simp add: strip_with_def)
qed

lemma digit_not_space: "is_digit c \<Longrightarrow> \<not> is_num_space c"
  by (auto simp: is_digit_def is_num_space_def)

lemma digit_not_sign: "is_digit c \<Longrightarrow> c \<noteq> CHR ''-'' \<and> c \<noteq> CHR ''+''"
  by (auto simp: is_digit_def)

lemma py_int_digits:
  assumes "ds \<noteq> []" and "list_all is_digit ds"
  shows "py_int ds = Some (int (foldl (\<lambda>a c. 10 * a + (of_char c - 48)) 0 ds))"
proof -
  from assms have "is_digit (hd ds)" "is_digit (last ds)"
    by (auto simp: list_all_iff)
  with assms have s: "strip_with is_num_space ds = ds"
    by (simp add: strip_with_id digit_not_space)
  from assms obtain c cs where ds: "ds = c # cs" by (cases ds) auto
  with assms have c: "is_digit c" by simp
  show ?thesis
    unfolding py_int_def s using assms c digit_not_sign [OF c]
    by (simp add: ds digits_us_def digits_acc_digits del: digits_acc.simps)
qed

section \<open>A malformed transmission type\<close>

text \<open>
  Claim C6. When field 1 of a line is not empty and is no integer text for \<^verbatim>\<open>int()\<close>,
  decoding fails: \<^verbatim>\<open>from_string\<close> raises \<^verbatim>\<open>ValueError\<close> and returns no record, and
  \<^verbatim>\<open>parse_string\<close> on any object raises it with the object's \<^verbatim>\<open>transmission_type\<close>
  as it was, so that no default value is ever stored.
\<close>

theorem malformed_transmission_type_fails:
  assumes "1 < length (parts_of line)"
    and "parts_of line ! 1 \<noteq> []"
    and "py_int (parts_of line ! 1) = None"
  shows "from_string line = Inl ValueError
         \<and> (\<exists>self'. parse_string self line = Raised ValueError self'
                \<and> transmission_type self' = transmission_type self)"
proof -
  have raised: "\<exists>self'. parse_string self0 line = Raised ValueError self'
                  \<and> transmission_type self' = transmission_type self0" for self0
  proof -
    obtain self1 where s1: "set_message_type (parts_of line) self0 = Done self1"
      and t1: "transmission_type self1 = transmission_type self0"
      using set_message_type_Done [of "parts_of line" self0] by auto
    have "set_transmission_type (parts_of line) self1 = Raised ValueError self1"
      using assms by (simp add: set_transmission_type_def int_field_def item_def)
    then have "parse_string self0 line = Raised ValueError self1"
      using s1 by (simp add: parse_string_def parse_parts_def)
    then show ?thesis using t1 by simp
  qed
  from raised [of init_message] have "from_string line = Inl ValueError"
    by (auto simp: from_string_def)
  with raised [of self] show ?thesis by simp
qed

theorem malformed_transmission_type_fails_witness:
  "parts_of ''MSG,abc,111,11111,3C49CC,111111,,,,,,24400,,,,,,,,,,0'' ! 1 = ''abc''
   \<and> py_int ''abc'' = None
   \<and> from_string ''MSG,abc,111,11111,3C49CC,111111,,,,,,24400,,,,,,,,,,0'' = Inl ValueError"
  using malformed_transmission_type_fails
    [of "''MSG,abc,111,11111,3C49CC,111111,,,,,,24400,,,,,,,,,,0''" init_message]
  by (simp add: parts_of_def strip_def strip_with_def is_space_def py_int_def is_num_space_def
        digits_us_def is_digit_def)

section \<open>Sentinels\<close>

text \<open>
  Claim C8. On a line that decodes, field 2 equal to \<^verbatim>\<open>111\<close> leaves \<^verbatim>\<open>session_id\<close> absent,
  field 3 equal to \<^verbatim>\<open>11111\<close> leaves \<^verbatim>\<open>aircraft_id\<close> absent and field 5 equal to
  \<^verbatim>\<open>111111\<close> leaves \<^verbatim>\<open>flight_id\<close> absent, as an empty field does; any other text is
  parsed by \<^verbatim>\<open>int\<close>, or upper-cased for \<^verbatim>\<open>flight_id\<close>. Field 4 has no sentinel: any text
  that is not empty is stored upper-cased in \<^verbatim>\<open>hexident\<close>, \<^verbatim>\<open>111111\<close> too. Upper-cased
  means, character by character: a letter from \<^verbatim>\<open>a\<close> to \<^verbatim>\<open>z\<close> becomes the character 32 code
  points below it, any other character stays. Parsed means, for a field of decimal digits
  only: the number that the digits write in base ten.
\<close>

theorem sentinels_on_decode:
  assumes "from_string line = Inr m"
  shows "session_id m =
           (if parts_of line ! 2 = [] \<or> parts_of line ! 2 = ''111'' then None
            else py_int (parts_of line ! 2))
       \<and> aircraft_id m =
           (if parts_of line ! 3 = [] \<or> parts_of line ! 3 = ''11111'' then None
            else py_int (parts_of line ! 3))
       \<and> flight_id m =
           (if parts_of line ! 5 = [] \<or> parts_of line ! 5 = ''111111'' then None
            else Some (upper (parts_of line ! 5)))
       \<and> hexident m =
           (if parts_of line ! 4 = [] then None else Some (upper (parts_of line ! 4)))
       \<and> (parts_of line ! 4 = ''111111'' \<longrightarrow> hexident m = Some ''111111'')
       \<and> (\<forall>v. hexident m = Some v \<longrightarrow>
              length v = length (parts_of line ! 4)
              \<and> (\<forall>i<length v.
                    if parts_of line ! 4 ! i \<in> set ''abcdefghijklmnopqrstuvwxyz''
                    then (of_char (v ! i) :: nat) + 32 = of_char (parts_of line ! 4 ! i)
                    else v ! i = parts_of line ! 4 ! i))
       \<and> (\<forall>v. flight_id m = Some v \<longrightarrow>
              length v = length (parts_of line ! 5)
              \<and> (\<forall>i<length v.
                    if parts_of line ! 5 ! i \<in> set ''abcdefghijklmnopqrstuvwxyz''
                    then (of_char (v ! i) :: nat) + 32 = of_char (parts_of line ! 5 ! i)
                    else v ! i = parts_of line ! 5 ! i))
       \<and> (parts_of line ! 2 \<noteq> [] \<and> parts_of line ! 2 \<noteq> ''111''
            \<and> set (parts_of line ! 2) \<subseteq> set ''0123456789'' \<longrightarrow>
            session_id m =
              Some (int (foldl (\<lambda>a c. 10 * a + (of_char c - 48)) 0 (parts_of line ! 2))))
       \<and> (parts_of line ! 3 \<noteq> [] \<and> parts_of line ! 3 \<noteq> ''11111''
            \<and> set (parts_of line ! 3) \<subseteq> set ''0123456789'' \<longrightarrow>
            aircraft_id m =
              Some (int (foldl (\<lambda>a c. 10 * a + (of_char c - 48)) 0 (parts_of line ! 3))))"
proof -
  have u: "upper ''111111'' = ''111111''"
    by (simp add: upper_def upper_char_def)
  from from_string_cases(2) [OF assms]
  have base: "session_id m =
           (if parts_of line ! 2 = [] \<or> parts_of line ! 2 = ''111'' then None
            else py_int (parts_of line ! 2))
       \<and> aircraft_id m =
           (if parts_of line ! 3 = [] \<or> parts_of line ! 3 = ''11111'' then None
            else py_int (parts_of line ! 3))
       \<and> flight_id m =
           (if parts_of line ! 5 = [] \<or> parts_of line ! 5 = ''111111'' then None
            else Some (upper (parts_of line ! 5)))
       \<and> hexident m =
           (if parts_of line ! 4 = [] then None else Some (upper (parts_of line ! 4)))
       \<and> (parts_of line ! 4 = ''111111'' \<longrightarrow> hexident m = Some ''111111'')"
    by (elim disjE conjE)
       (simp_all add: head_result_def rest_result_def init_message_def u)
  have hx: "\<forall>v. hexident m = Some v \<longrightarrow>
              length v = length (parts_of line ! 4)
              \<and> (\<forall>i<length v.
                    if parts_of line ! 4 ! i \<in> set ''abcdefghijklmnopqrstuvwxyz''
                    then (of_char (v ! i) :: nat) + 32 = of_char (parts_of line ! 4 ! i)
                    else v ! i = parts_of line ! 4 ! i)"
  proof (intro allI impI)
    fix v assume "hexident m = Some v"
    with base have "v = upper (parts_of line ! 4)" by (auto split: if_splits)
    with upper_code [of "parts_of line ! 4"]
    show "length v = length (parts_of line ! 4)
              \<and> (\<forall>i<length v.
                    if parts_of line ! 4 ! i \<in> set ''abcdefghijklmnopqrstuvwxyz''
                    then (of_char (v ! i) :: nat) + 32 = of_char (parts_of line ! 4 ! i)
                    else v ! i = parts_of line ! 4 ! i)" by simp
  qed
  have fx: "\<forall>v. flight_id m = Some v \<longrightarrow>
              length v = length (parts_of line ! 5)
              \<and> (\<forall>i<length v.
                    if parts_of line ! 5 ! i \<in> set ''abcdefghijklmnopqrstuvwxyz''
                    then (of_char (v ! i) :: nat) + 32 = of_char (parts_of line ! 5 ! i)
                    else v ! i = parts_of line ! 5 ! i)"
  proof (intro allI impI)
    fix v assume "flight_id m = Some v"
    with base have "v = upper (parts_of line ! 5)" by (auto split: if_splits)
    with upper_code [of "parts_of line ! 5"]
    show "length v = length (parts_of line ! 5)
              \<and> (\<forall>i<length v.
                    if parts_of line ! 5 ! i \<in> set ''abcdefghijklmnopqrstuvwxyz''
                    then (of_char (v ! i) :: nat) + 32 = of_char (parts_of line ! 5 ! i)
                    else v ! i = parts_of line ! 5 ! i)" by simp
  qed
  have d: "s \<noteq> [] \<Longrightarrow> set s \<subseteq> set ''0123456789'' \<Longrightarrow>
      py_int s = Some (int (foldl (\<lambda>a c. 10 * a + (of_char c - 48)) 0 s))" for s
  proof (rule py_int_digits)
    assume "set s \<subseteq> set ''0123456789''"
    then show "list_all is_digit s" unfolding list_all_iff is_digit_def by blast
  qed
  have sx: "parts_of line ! 2 \<noteq> [] \<and> parts_of line ! 2 \<noteq> ''111''
            \<and> set (parts_of line ! 2) \<subseteq> set ''0123456789'' \<longrightarrow>
            session_id m =
              Some (int (foldl (\<lambda>a c. 10 * a + (of_char c - 48)) 0 (parts_of line ! 2)))"
    using base d [of "parts_of line ! 2"] by simp
  have ax: "parts_of line ! 3 \<noteq> [] \<and> parts_of line ! 3 \<noteq> ''11111''
            \<and> set (parts_of line ! 3) \<subseteq> set ''0123456789'' \<longrightarrow>
            aircraft_id m =
              Some (int (foldl (\<lambda>a c. 10 * a + (of_char c - 48)) 0 (parts_of line ! 3)))"
    using base d [of "parts_of line ! 3"] by simp
  from base hx fx sx ax show ?thesis by blast
qed

theorem sentinels_on_decode_witness:
  "from_string ''MSG,3,111,11111,111111,111111,,,,,,24400,,,,,,,,,,0''
     = Inr (init_message\<lparr>message_type := Some ''MSG'', transmission_type := Some 3,
              hexident := Some ''111111'', altitude := Some 24400, on_ground := Some False\<rparr>)
   \<and> session_id (init_message\<lparr>message_type := Some ''MSG'', transmission_type := Some 3,
              hexident := Some ''111111'', altitude := Some 24400, on_ground := Some False\<rparr>) = None
   \<and> from_string ''MSG,3,42,1234,3c49cc,ab12x,,,,,,24400,,,,,,,,,,0''
     = Inr (init_message\<lparr>message_type := Some ''MSG'', transmission_type := Some 3,
              session_id := Some 42, aircraft_id := Some 1234, hexident := Some ''3C49CC'',
              flight_id := Some ''AB12X'', altitude := Some 24400, on_ground := Some False\<rparr>)
   \<and> upper ''3c49cc'' = ''3C49CC'' \<and> upper ''ab12x'' = ''AB12X''
   \<and> py_int ''42'' = Some 42 \<and> py_int ''1234'' = Some 1234"
proof -
  let ?l1 = "''MSG,3,111,11111,111111,111111,,,,,,24400,,,,,,,,,,0''"
  let ?r1 = "init_message\<lparr>message_type := Some ''MSG'', transmission_type := Some 3,
              hexident := Some ''111111'', altitude := Some 24400, on_ground := Some False\<rparr>"
  let ?l2 = "''MSG,3,42,1234,3c49cc,ab12x,,,,,,24400,,,,,,,,,,0''"
  let ?r2 = "init_message\<lparr>message_type := Some ''MSG'', transmission_type := Some 3,
              session_id := Some 42, aircraft_id := Some 1234, hexident := Some ''3C49CC'',
              flight_id := Some ''AB12X'', altitude := Some 24400, on_ground := Some False\<rparr>"
  have d1: "from_string ?l1 = Inr ?r1" and d2: "from_string ?l2 = Inr ?r2"
    by (simp_all add: ev)
  have p: "parts_of ?l2 ! 2 = ''42''" "parts_of ?l2 ! 3 = ''1234''" "parts_of ?l2 ! 4 = ''3c49cc''"
    "parts_of ?l2 ! 5 = ''ab12x''" "parts_of ?l1 ! 2 = ''111''"
    by (simp_all add: ev)
  note t1 = sentinels_on_decode [OF d1] and t2 = sentinels_on_decode [OF d2]
  have "session_id ?r1 = None" using t1 [THEN conjunct1] p by simp
  moreover have "Some (42::int) = py_int ''42''"
    using t2 [THEN conjunct1] p by (simp add: init_message_def)
  moreover have "Some (1234::int) = py_int ''1234''"
    using t2 [THEN conjunct2, THEN conjunct1] p by (simp add: init_message_def)
  moreover have "Some ''AB12X'' = Some (upper ''ab12x'')"
    using t2 [THEN conjunct2, THEN conjunct2, THEN conjunct1] p by (simp add: init_message_def)
  moreover have "Some ''3C49CC'' = Some (upper ''3c49cc'')"
    using t2 [THEN conjunct2, THEN conjunct2, THEN conjunct2, THEN conjunct1] p
    by (simp add: init_message_def)
  ultimately show ?thesis using d1 d2 by simp
qed

section \<open>Message types other than MSG\<close>

text \<open>
  Claim C7. When the upper-cased field 0 of a line is not \<^verbatim>\<open>MSG\<close>, the decoded record has
  \<^verbatim>\<open>altitude\<close>, \<^verbatim>\<open>ground_speed\<close>, \<^verbatim>\<open>track\<close>, \<^verbatim>\<open>latitude\<close>, \<^verbatim>\<open>longitude\<close>,
  \<^verbatim>\<open>vertical_rate\<close>, \<^verbatim>\<open>squawk\<close>, \<^verbatim>\<open>squawk_alert\<close>, \<^verbatim>\<open>emergency\<close>, \<^verbatim>\<open>spi\<close> and
  \<^verbatim>\<open>on_ground\<close> absent, whatever fields 11 to 21 hold; and the fields from index 11 on
  have no effect on the decoding at all, neither on the record nor on an exception: two
  lines with the same first eleven fields decode alike.
\<close>

theorem non_msg_fields_absent:
  assumes "upper (parts_of line ! 0) \<noteq> ''MSG''"
  shows "(\<forall>m. from_string line = Inr m \<longrightarrow>
            altitude m = None \<and> ground_speed m = None \<and> track m = None \<and> latitude m = None
            \<and> longitude m = None \<and> vertical_rate m = None \<and> squawk m = None
            \<and> squawk_alert m = None \<and> emergency m = None \<and> spi m = None \<and> on_ground m = None)
       \<and> (\<forall>line'. take 11 (parts_of line') = take 11 (parts_of line) \<longrightarrow>
            from_string line' = from_string line)"
proof (intro conjI allI impI)
  fix m assume d: "from_string line = Inr m"
  from from_string_cases(2) [OF d] assms
  have m: "m = head_result (parts_of line) init_message" by auto
  show "altitude m = None" "ground_speed m = None" "track m = None" "latitude m = None"
    "longitude m = None" "vertical_rate m = None" "squawk m = None" "squawk_alert m = None"
    "emergency m = None" "spi m = None" "on_ground m = None"
    unfolding m by (simp_all add: head_result_def init_message_def)
next
  fix line' assume t: "take 11 (parts_of line') = take 11 (parts_of line)"
  then have "parts_of line' ! 0 = parts_of line ! 0" by (rule take_nth_eq) simp
  with assms have n': "upper (parts_of line' ! 0) \<noteq> ''MSG''" by simp
  have "head_steps (parts_of line') = head_steps (take 11 (parts_of line'))"
    by (simp add: head_steps_take)
  also have "\<dots> = head_steps (parts_of line)"
    unfolding t by (simp add: head_steps_take)
  finally have "parse_parts (parts_of line') init_message = parse_parts (parts_of line) init_message"
    using parse_parts_non_msg [OF assms] parse_parts_non_msg [OF n'] by simp
  then show "from_string line' = from_string line"
    by (simp add: from_string_def parse_string_def)
qed

theorem non_msg_fields_absent_witness:
  "upper (parts_of ''id,,,,3c49cc,,,,,,,a,b,c,d,e,f,g,h,i,j,k'' ! 0) \<noteq> ''MSG''
   \<and> from_string ''id,,,,3c49cc,,,,,,,a,b,c,d,e,f,g,h,i,j,k''
       = Inr (init_message\<lparr>message_type := Some ''ID'', hexident := Some ''3C49CC''\<rparr>)
   \<and> altitude (init_message\<lparr>message_type := Some ''ID'', hexident := Some ''3C49CC''\<rparr>) = None
   \<and> on_ground (init_message\<lparr>message_type := Some ''ID'', hexident := Some ''3C49CC''\<rparr>) = None"
proof -
  have h: "upper (parts_of ''id,,,,3c49cc,,,,,,,a,b,c,d,e,f,g,h,i,j,k'' ! 0) \<noteq> ''MSG''"
    by (simp add: ev)
  have d: "from_string ''id,,,,3c49cc,,,,,,,a,b,c,d,e,f,g,h,i,j,k''
       = Inr (init_message\<lparr>message_type := Some ''ID'', hexident := Some ''3C49CC''\<rparr>)"
    by (simp add: ev)
  from non_msg_fields_absent [OF h] d show ?thesis
    using h by blast
qed

section \<open>The line of sub-type 7 with 21 fields\<close>



section \<open>Lines with fewer than 22 fields\<close>




section \<open>Partial pairs of date and time\<close>

text \<open>
  Claim C1 says that a line with exactly one sub-field of a timestamp decodes, the
  timestamp left absent, for \<^verbatim>\<open>generation_time\<close> (fields 6 and 7) and for \<^verbatim>\<open>record_time\<close>
  (fields 8 and 9) alike. Line 178 tests fields 6 and 7; line 181 tests field 8 twice and
  never field 9. The first line below has a generation date and no generation time, and
  decodes with \<^verbatim>\<open>generation_time\<close> absent; the second has the same date as record date and
  no record time, and \<^verbatim>\<open>_parse_datetime\<close> raises \<^verbatim>\<open>ValueError\<close> on its empty time.
\<close>

theorem record_date_without_time_raises:
  "from_string ''MSG,3,111,11111,3C49CC,111111,2015/05/01,,,,,24400,,,,,,,,,,0''
     = Inr (init_message\<lparr>message_type := Some ''MSG'', transmission_type := Some 3,
              hexident := Some ''3C49CC'', altitude := Some 24400, on_ground := Some False\<rparr>)
   \<and> from_string ''MSG,3,111,11111,3C49CC,111111,,,2015/05/01,,,24400,,,,,,,,,,0''
     = Inl ValueError"
  by (simp add: ev)

section \<open>Boolean fields\<close>




section \<open>Decoding into an object that has values\<close>

text \<open>
  Claim C10, as stated: \<^verbatim>\<open>parse_string\<close> never resets an attribute to absent. The object
  below has \<^verbatim>\<open>on_ground\<close> set; the line has the text \<^verbatim>\<open>maybe\<close> in field 21, line 226
  assigns the \<^verbatim>\<open>None\<close> of \<^verbatim>\<open>_parse_bool\<close>, and \<^verbatim>\<open>on_ground\<close> is absent afterwards.
\<close>

theorem parse_string_resets_counterexample:
  "parse_string (init_message\<lparr>on_ground := Some True\<rparr>)
       ''MSG,3,,,3C49CC,,,,,,,24400,,,,,,,,,,maybe''
     = Done (init_message\<lparr>message_type := Some ''MSG'', transmission_type := Some 3,
              hexident := Some ''3C49CC'', altitude := Some 24400, on_ground := None\<rparr>)"
  by (simp add: ev)

text \<open>
  Claim C10, amended. Whether \<^verbatim>\<open>parse_string\<close> returns or raises, an attribute whose token
  is empty, has the value of its sentinel or lies beyond the end of the line keeps the
  value that the object had: the token of \<^verbatim>\<open>generation_time\<close> is the pair of fields 6 and
  7, that of \<^verbatim>\<open>record_time\<close> the pair of fields 8 and 9, and that of \<^verbatim>\<open>on_ground\<close> field 21
  or, on a line of 21 fields, field 20. No attribute other than the four boolean ones is
  ever reset to absent; and a boolean attribute that has a value is reset to absent only
  by a token that is not empty and that \<^verbatim>\<open>_parse_bool\<close> does not know.
\<close>

theorem parse_string_merges:
  "(\<not> (0 < length (parts_of line) \<and> parts_of line ! 0 \<noteq> []) \<longrightarrow>
            message_type (state_of (parse_string self line)) = message_type self)
       \<and> (\<not> (1 < length (parts_of line) \<and> parts_of line ! 1 \<noteq> []) \<longrightarrow>
            transmission_type (state_of (parse_string self line)) = transmission_type self)
       \<and> (\<not> (2 < length (parts_of line) \<and> parts_of line ! 2 \<noteq> [] \<and> parts_of line ! 2 \<noteq> ''111'') \<longrightarrow>
            session_id (state_of (parse_string self line)) = session_id self)
       \<and> (\<not> (3 < length (parts_of line) \<and> parts_of line ! 3 \<noteq> [] \<and> parts_of line ! 3 \<noteq> ''11111'') \<longrightarrow>
            aircraft_id (state_of (parse_string self line)) = aircraft_id self)
       \<and> (\<not> (4 < length (parts_of line) \<and> parts_of line ! 4 \<noteq> []) \<longrightarrow>
            hexident (state_of (parse_string self line)) = hexident self)
       \<and> (\<not> (5 < length (parts_of line) \<and> parts_of line ! 5 \<noteq> [] \<and> parts_of line ! 5 \<noteq> ''111111'') \<longrightarrow>
            flight_id (state_of (parse_string self line)) = flight_id self)
       \<and> (\<not> (7 < length (parts_of line) \<and> parts_of line ! 6 \<noteq> [] \<and> parts_of line ! 7 \<noteq> []) \<longrightarrow>
            generation_time (state_of (parse_string self line)) = generation_time self)
       \<and> (\<not> (9 < length (parts_of line) \<and> parts_of line ! 8 \<noteq> [] \<and> parts_of line ! 9 \<noteq> []) \<longrightarrow>
            record_time (state_of (parse_string self line)) = record_time self)
       \<and> (\<not> (10 < length (parts_of line) \<and> parts_of line ! 10 \<noteq> []) \<longrightarrow>
            callsign (state_of (parse_string self line)) = callsign self)
       \<and> (\<not> (11 < length (parts_of line) \<and> parts_of line ! 11 \<noteq> []) \<longrightarrow>
            altitude (state_of (parse_string self line)) = altitude self)
       \<and> (\<not> (12 < length (parts_of line) \<and> parts_of line ! 12 \<noteq> []) \<longrightarrow>
            ground_speed (state_of (parse_string self line)) = ground_speed self)
       \<and> (\<not> (13 < length (parts_of line) \<and> parts_of line ! 13 \<noteq> []) \<longrightarrow>
            track (state_of (parse_string self line)) = track self)
       \<and> (\<not> (14 < length (parts_of line) \<and> parts_of line ! 14 \<noteq> []) \<longrightarrow>
            latitude (state_of (parse_string self line)) = latitude self)
       \<and> (\<not> (15 < length (parts_of line) \<and> parts_of line ! 15 \<noteq> []) \<longrightarrow>
            longitude (state_of (parse_string self line)) = longitude self)
       \<and> (\<not> (16 < length (parts_of line) \<and> parts_of line ! 16 \<noteq> []) \<longrightarrow>
            vertical_rate (state_of (parse_string self line)) = vertical_rate self)
       \<and> (\<not> (17 < length (parts_of line) \<and> parts_of line ! 17 \<noteq> []) \<longrightarrow>
            squawk (state_of (parse_string self line)) = squawk self)
       \<and> (\<not> (18 < length (parts_of line) \<and> parts_of line ! 18 \<noteq> []) \<longrightarrow>
            squawk_alert (state_of (parse_string self line)) = squawk_alert self)
       \<and> (\<not> (19 < length (parts_of line) \<and> parts_of line ! 19 \<noteq> []) \<longrightarrow>
            emergency (state_of (parse_string self line)) = emergency self)
       \<and> (\<not> (20 < length (parts_of line) \<and> parts_of line ! 20 \<noteq> []) \<longrightarrow>
            spi (state_of (parse_string self line)) = spi self)
       \<and> (\<not> (21 < length (parts_of line) \<and> parts_of line ! 21 \<noteq> []) \<and> \<not> (length (parts_of line) = 21 \<and> parts_of line ! 20 \<noteq> []) \<longrightarrow>
            on_ground (state_of (parse_string self line)) = on_ground self)
       \<and> (message_type self \<noteq> None \<longrightarrow> message_type (state_of (parse_string self line)) \<noteq> None)
       \<and> (transmission_type self \<noteq> None \<longrightarrow> transmission_type (state_of (parse_string self line)) \<noteq> None)
       \<and> (session_id self \<noteq> None \<longrightarrow> session_id (state_of (parse_string self line)) \<noteq> None)
       \<and> (aircraft_id self \<noteq> None \<longrightarrow> aircraft_id (state_of (parse_string self line)) \<noteq> None)
       \<and> (hexident self \<noteq> None \<longrightarrow> hexident (state_of (parse_string self line)) \<noteq> None)
       \<and> (flight_id self \<noteq> None \<longrightarrow> flight_id (state_of (parse_string self line)) \<noteq> None)
       \<and> (generation_time self \<noteq> None \<longrightarrow> generation_time (state_of (parse_string self line)) \<noteq> None)
       \<and> (record_time self \<noteq> None \<longrightarrow> record_time (state_of (parse_string self line)) \<noteq> None)
       \<and> (callsign self \<noteq> None \<longrightarrow> callsign (state_of (parse_string self line)) \<noteq> None)
       \<and> (altitude self \<noteq> None \<longrightarrow> altitude (state_of (parse_string self line)) \<noteq> None)
       \<and> (ground_speed self \<noteq> None \<longrightarrow> ground_speed (state_of (parse_string self line)) \<noteq> None)
       \<and> (track self \<noteq> None \<longrightarrow> track (state_of (parse_string self line)) \<noteq> None)
       \<and> (latitude self \<noteq> None \<longrightarrow> latitude (state_of (parse_string self line)) \<noteq> None)
       \<and> (longitude self \<noteq> None \<longrightarrow> longitude (state_of (parse_string self line)) \<noteq> None)
       \<and> (vertical_rate self \<noteq> None \<longrightarrow> vertical_rate (state_of (parse_string self line)) \<noteq> None)
       \<and> (squawk self \<noteq> None \<longrightarrow> squawk (state_of (parse_string self line)) \<noteq> None)
       \<and> (squawk_alert self \<noteq> None \<and> \<not> (18 < length (parts_of line) \<and> parts_of line ! 18 \<noteq> [] \<and> parse_bool (parts_of line ! 18) = None) \<longrightarrow>
            squawk_alert (state_of (parse_string self line)) \<noteq> None)
       \<and> (emergency self \<noteq> None \<and> \<not> (19 < length (parts_of line) \<and> parts_of line ! 19 \<noteq> [] \<and> parse_bool (parts_of line ! 19) = None) \<longrightarrow>
            emergency (state_of (parse_string self line)) \<noteq> None)
       \<and> (spi self \<noteq> None \<and> \<not> (20 < length (parts_of line) \<and> parts_of line ! 20 \<noteq> [] \<and> parse_bool (parts_of line ! 20) = None) \<longrightarrow>
            spi (state_of (parse_string self line)) \<noteq> None)
       \<and> (on_ground self \<noteq> None \<and> \<not> (21 < length (parts_of line) \<and> parts_of line ! 21 \<noteq> [] \<and> parse_bool (parts_of line ! 21) = None)
            \<and> \<not> (length (parts_of line) = 21 \<and> parts_of line ! 20 \<noteq> [] \<and> parse_bool (parts_of line ! 20) = None) \<longrightarrow>
            on_ground (state_of (parse_string self line)) \<noteq> None)"
proof -
  have k1: "(\<not> (0 < length (parts_of line) \<and> parts_of line ! 0 \<noteq> []) \<longrightarrow>
            message_type (state_of (parse_string self line)) = message_type self)"
    using parse_parts_keeps_message_type [of "parts_of line"] by (auto simp: keeps_def parse_string_def)
  have k2: "(\<not> (1 < length (parts_of line) \<and> parts_of line ! 1 \<noteq> []) \<longrightarrow>
            transmission_type (state_of (parse_string self line)) = transmission_type self)"
    using parse_parts_keeps_transmission_type [of "parts_of line"] by (auto simp: keeps_def parse_string_def)
  have k3: "(\<not> (2 < length (parts_of line) \<and> parts_of line ! 2 \<noteq> [] \<and> parts_of line ! 2 \<noteq> ''111'') \<longrightarrow>
            session_id (state_of (parse_string self line)) = session_id self)"
    using parse_parts_keeps_session_id [of "parts_of line"] by (auto simp: keeps_def parse_string_def)
  have k4: "(\<not> (3 < length (parts_of line) \<and> parts_of line ! 3 \<noteq> [] \<and> parts_of line ! 3 \<noteq> ''11111'') \<longrightarrow>
            aircraft_id (state_of (parse_string self line)) = aircraft_id self)"
    using parse_parts_keeps_aircraft_id [of "parts_of line"] by (auto simp: keeps_def parse_string_def)
  have k5: "(\<not> (4 < length (parts_of line) \<and> parts_of line ! 4 \<noteq> []) \<longrightarrow>
            hexident (state_of (parse_string self line)) = hexident self)"
    using parse_parts_keeps_hexident [of "parts_of line"] by (auto simp: keeps_def parse_string_def)
  have k6: "(\<not> (5 < length (parts_of line) \<and> parts_of line ! 5 \<noteq> [] \<and> parts_of line ! 5 \<noteq> ''111111'') \<longrightarrow>
            flight_id (state_of (parse_string self line)) = flight_id self)"
    using parse_parts_keeps_flight_id [of "parts_of line"] by (auto simp: keeps_def parse_string_def)
  have k7: "(\<not> (7 < length (parts_of line) \<and> parts_of line ! 6 \<noteq> [] \<and> parts_of line ! 7 \<noteq> []) \<longrightarrow>
            generation_time (state_of (parse_string self line)) = generation_time self)"
    using parse_parts_keeps_generation_time [of "parts_of line"] by (auto simp: keeps_def parse_string_def)
  have k8: "(\<not> (9 < length (parts_of line) \<and> parts_of line ! 8 \<noteq> [] \<and> parts_of line ! 9 \<noteq> []) \<longrightarrow>
            record_time (state_of (parse_string self line)) = record_time self)"
    using parse_parts_keeps_record_time [of "parts_of line"] by (auto simp: keeps_def parse_string_def)
  have k9: "(\<not> (10 < length (parts_of line) \<and> parts_of line ! 10 \<noteq> []) \<longrightarrow>
            callsign (state_of (parse_string self line)) = callsign self)"
    using parse_parts_keeps_callsign [of "parts_of line"] by (auto simp: keeps_def parse_string_def)
  have k10: "(\<not> (11 < length (parts_of line) \<and> parts_of line ! 11 \<noteq> []) \<longrightarrow>
            altitude (state_of (parse_string self line)) = altitude self)"
    using parse_parts_keeps_altitude [of "parts_of line"] by (auto simp: keeps_def parse_string_def)
  have k11: "(\<not> (12 < length (parts_of line) \<and> parts_of line ! 12 \<noteq> []) \<longrightarrow>
            ground_speed (state_of (parse_string self line)) = ground_speed self)"
    using parse_parts_keeps_ground_speed [of "parts_of line"] by (auto simp: keeps_def parse_string_def)
  have k12: "(\<not> (13 < length (parts_of line) \<and> parts_of line ! 13 \<noteq> []) \<longrightarrow>
            track (state_of (parse_string self line)) = track self)"
    using parse_parts_keeps_track [of "parts_of line"] by (auto simp: keeps_def parse_string_def)
  have k13: "(\<not> (14 < length (parts_of line) \<and> parts_of line ! 14 \<noteq> []) \<longrightarrow>
            latitude (state_of (parse_string self line)) = latitude self)"
    using parse_parts_keeps_latitude [of "parts_of line"] by (auto simp: keeps_def parse_string_def)
  have k14: "(\<not> (15 < length (parts_of line) \<and> parts_of line ! 15 \<noteq> []) \<longrightarrow>
            longitude (state_of (parse_string self line)) = longitude self)"
    using parse_parts_keeps_longitude [of "parts_of line"] by (auto simp: keeps_def parse_string_def)
  have k15: "(\<not> (16 < length (parts_of line) \<and> parts_of line ! 16 \<noteq> []) \<longrightarrow>
            vertical_rate (state_of (parse_string self line)) = vertical_rate self)"
    using parse_parts_keeps_vertical_rate [of "parts_of line"] by (auto simp: keeps_def parse_string_def)
  have k16: "(\<not> (17 < length (parts_of line) \<and> parts_of line ! 17 \<noteq> []) \<longrightarrow>
            squawk (state_of (parse_string self line)) = squawk self)"
    using parse_parts_keeps_squawk [of "parts_of line"] by (auto simp: keeps_def parse_string_def)
  have k17: "(\<not> (18 < length (parts_of line) \<and> parts_of line ! 18 \<noteq> []) \<longrightarrow>
            squawk_alert (state_of (parse_string self line)) = squawk_alert self)"
    using parse_parts_keeps_squawk_alert [of "parts_of line"] by (auto simp: keeps_def parse_string_def)
  have k18: "(\<not> (19 < length (parts_of line) \<and> parts_of line ! 19 \<noteq> []) \<longrightarrow>
            emergency (state_of (parse_string self line)) = emergency self)"
    using parse_parts_keeps_emergency [of "parts_of line"] by (auto simp: keeps_def parse_string_def)
  have k19: "(\<not> (20 < length (parts_of line) \<and> parts_of line ! 20 \<noteq> []) \<longrightarrow>
            spi (state_of (parse_string self line)) = spi self)"
    using parse_parts_keeps_spi [of "parts_of line"] by (auto simp: keeps_def parse_string_def)
  have k20: "(\<not> (21 < length (parts_of line) \<and> parts_of line ! 21 \<noteq> []) \<and> \<not> (length (parts_of line) = 21 \<and> parts_of line ! 20 \<noteq> []) \<longrightarrow>
            on_ground (state_of (parse_string self line)) = on_ground self)"
    using parse_parts_keeps_on_ground [of "parts_of line"] by (auto simp: keeps_def parse_string_def)
  have k21: "(message_type self \<noteq> None \<longrightarrow> message_type (state_of (parse_string self line)) \<noteq> None)"
    using parse_parts_never_clears_message_type [of "parts_of line"] by (simp add: never_clears_def parse_string_def)
  have k22: "(transmission_type self \<noteq> None \<longrightarrow> transmission_type (state_of (parse_string self line)) \<noteq> None)"
    using parse_parts_never_clears_transmission_type [of "parts_of line"] by (simp add: never_clears_def parse_string_def)
  have k23: "(session_id self \<noteq> None \<longrightarrow> session_id (state_of (parse_string self line)) \<noteq> None)"
    using parse_parts_never_clears_session_id [of "parts_of line"] by (simp add: never_clears_def parse_string_def)
  have k24: "(aircraft_id self \<noteq> None \<longrightarrow> aircraft_id (state_of (parse_string self line)) \<noteq> None)"
    using parse_parts_never_clears_aircraft_id [of "parts_of line"] by (simp add: never_clears_def parse_string_def)
  have k25: "(hexident self \<noteq> None \<longrightarrow> hexident (state_of (parse_string self line)) \<noteq> None)"
    using parse_parts_never_clears_hexident [of "parts_of line"] by (simp add: never_clears_def parse_string_def)
  have k26: "(flight_id self \<noteq> None \<longrightarrow> flight_id (state_of (parse_string self line)) \<noteq> None)"
    using parse_parts_never_clears_flight_id [of "parts_of line"] by (simp add: never_clears_def parse_string_def)
  have k27: "(generation_time self \<noteq> None \<longrightarrow> generation_time (state_of (parse_string self line)) \<noteq> None)"
    using parse_parts_never_clears_generation_time [of "parts_of line"] by (simp add: never_clears_def parse_string_def)
  have k28: "(record_time self \<noteq> None \<longrightarrow> record_time (state_of (parse_string self line)) \<noteq> None)"
    using parse_parts_never_clears_record_time [of "parts_of line"] by (simp add: never_clears_def parse_string_def)
  have k29: "(callsign self \<noteq> None \<longrightarrow> callsign (state_of (parse_string self line)) \<noteq> None)"
    using parse_parts_never_clears_callsign [of "parts_of line"] by (simp add: never_clears_def parse_string_def)
  have k30: "(altitude self \<noteq> None \<longrightarrow> altitude (state_of (parse_string self line)) \<noteq> None)"
    using parse_parts_never_clears_altitude [of "parts_of line"] by (simp add: never_clears_def parse_string_def)
  have k31: "(ground_speed self \<noteq> None \<longrightarrow> ground_speed (state_of (parse_string self line)) \<noteq> None)"
    using parse_parts_never_clears_ground_speed [of "parts_of line"] by (simp add: never_clears_def parse_string_def)
  have k32: "(track self \<noteq> None \<longrightarrow> track (state_of (parse_string self line)) \<noteq> None)"
    using parse_parts_never_clears_track [of "parts_of line"] by (simp add: never_clears_def parse_string_def)
  have k33: "(latitude self \<noteq> None \<longrightarrow> latitude (state_of (parse_string self line)) \<noteq> None)"
    using parse_parts_never_clears_latitude [of "parts_of line"] by (simp add: never_clears_def parse_string_def)
  have k34: "(longitude self \<noteq> None \<longrightarrow> longitude (state_of (parse_string self line)) \<noteq> None)"
    using parse_parts_never_clears_longitude [of "parts_of line"] by (simp add: never_clears_def parse_string_def)
  have k35: "(vertical_rate self \<noteq> None \<longrightarrow> vertical_rate (state_of (parse_string self line)) \<noteq> None)"
    using parse_parts_never_clears_vertical_rate [of "parts_of line"] by (simp add: never_clears_def parse_string_def)
  have k36: "(squawk self \<noteq> None \<longrightarrow> squawk (state_of (parse_string self line)) \<noteq> None)"
    using parse_parts_never_clears_squawk [of "parts_of line"] by (simp add: never_clears_def parse_string_def)
  have k37: "(squawk_alert self \<noteq> None \<and> \<not> (18 < length (parts_of line) \<and> parts_of line ! 18 \<noteq> [] \<and> parse_bool (parts_of line ! 18) = None) \<longrightarrow>
            squawk_alert (state_of (parse_string self line)) \<noteq> None)"
    using parse_parts_never_clears_squawk_alert [of "parts_of line"] by (auto simp: never_clears_def parse_string_def)
  have k38: "(emergency self \<noteq> None \<and> \<not> (19 < length (parts_of line) \<and> parts_of line ! 19 \<noteq> [] \<and> parse_bool (parts_of line ! 19) = None) \<longrightarrow>
            emergency (state_of (parse_string self line)) \<noteq> None)"
    using parse_parts_never_clears_emergency [of "parts_of line"] by (auto simp: never_clears_def parse_string_def)
  have k39: "(spi self \<noteq> None \<and> \<not> (20 < length (parts_of line) \<and> parts_of line ! 20 \<noteq> [] \<and> parse_bool (parts_of line ! 20) = None) \<longrightarrow>
            spi (state_of (parse_string self line)) \<noteq> None)"
    using parse_parts_never_clears_spi [of "parts_of line"] by (auto simp: never_clears_def parse_string_def)
  have k40: "(on_ground self \<noteq> None \<and> \<not> (21 < length (parts_of line) \<and> parts_of line ! 21 \<noteq> [] \<and> parse_bool (parts_of line ! 21) = None)
            \<and> \<not> (length (parts_of line) = 21 \<and> parts_of line ! 20 \<noteq> [] \<and> parse_bool (parts_of line ! 20) = None) \<longrightarrow>
            on_ground (state_of (parse_string self line)) \<noteq> None)"
    using parse_parts_never_clears_on_ground [of "parts_of line"] by (auto simp: never_clears_def parse_string_def)
  show ?thesis
    by (intro conjI) (rule k1 k2 k3 k4 k5 k6 k7 k8 k9 k10 k11 k12 k13 k14 k15 k16 k17 k18 k19 k20 k21 k22 k23 k24 k25 k26 k27 k28 k29 k30 k31 k32 k33 k34 k35 k36 k37 k38 k39 k40)+
qed

theorem parse_string_merges_witness:
  "\<not> (2 < length (parts_of ''MSG,3,111,11111,3C49CC,111111,,,,,,24400,,,,,,,,,,'') \<and> parts_of ''MSG,3,111,11111,3C49CC,111111,,,,,,24400,,,,,,,,,,'' ! 2 \<noteq> [] \<and> parts_of ''MSG,3,111,11111,3C49CC,111111,,,,,,24400,,,,,,,,,,'' ! 2 \<noteq> ''111'')
   \<and> session_id (state_of (parse_string (init_message\<lparr>session_id := Some 5, callsign := Some ''OLD'', on_ground := Some True\<rparr>) ''MSG,3,111,11111,3C49CC,111111,,,,,,24400,,,,,,,,,,'')) = Some 5
   \<and> \<not> (10 < length (parts_of ''MSG,3,111,11111,3C49CC,111111,,,,,,24400,,,,,,,,,,'') \<and> parts_of ''MSG,3,111,11111,3C49CC,111111,,,,,,24400,,,,,,,,,,'' ! 10 \<noteq> [])
   \<and> callsign (state_of (parse_string (init_message\<lparr>session_id := Some 5, callsign := Some ''OLD'', on_ground := Some True\<rparr>) ''MSG,3,111,11111,3C49CC,111111,,,,,,24400,,,,,,,,,,'')) = Some ''OLD''
   \<and> \<not> (21 < length (parts_of ''MSG,3,111,11111,3C49CC,111111,,,,,,24400,,,,,,,,,,'') \<and> parts_of ''MSG,3,111,11111,3C49CC,111111,,,,,,24400,,,,,,,,,,'' ! 21 \<noteq> []) \<and> \<not> (length (parts_of ''MSG,3,111,11111,3C49CC,111111,,,,,,24400,,,,,,,,,,'') = 21 \<and> parts_of ''MSG,3,111,11111,3C49CC,111111,,,,,,24400,,,,,,,,,,'' ! 20 \<noteq> [])
   \<and> on_ground (state_of (parse_string (init_message\<lparr>session_id := Some 5, callsign := Some ''OLD'', on_ground := Some True\<rparr>) ''MSG,3,111,11111,3C49CC,111111,,,,,,24400,,,,,,,,,,'')) = Some True
   \<and> parts_of ''MSG,3,111,11111,3C49CC,111111,,,,,,24400,,,,,,,,,,0'' ! 21 = ''0''
   \<and> on_ground (state_of (parse_string (init_message\<lparr>on_ground := Some True\<rparr>) ''MSG,3,111,11111,3C49CC,111111,,,,,,24400,,,,,,,,,,0'')) \<noteq> None"
proof -
  note t = parse_string_merges [of "''MSG,3,111,11111,3C49CC,111111,,,,,,24400,,,,,,,,,,''" "init_message\<lparr>session_id := Some 5, callsign := Some ''OLD'', on_ground := Some True\<rparr>"]
  note t2 = parse_string_merges [of "''MSG,3,111,11111,3C49CC,111111,,,,,,24400,,,,,,,,,,0''" "init_message\<lparr>on_ground := Some True\<rparr>"]
  have h1: "\<not> (2 < length (parts_of ''MSG,3,111,11111,3C49CC,111111,,,,,,24400,,,,,,,,,,'') \<and> parts_of ''MSG,3,111,11111,3C49CC,111111,,,,,,24400,,,,,,,,,,'' ! 2 \<noteq> [] \<and> parts_of ''MSG,3,111,11111,3C49CC,111111,,,,,,24400,,,,,,,,,,'' ! 2 \<noteq> ''111'')"
    by (simp add: ev)
  have h2: "\<not> (10 < length (parts_of ''MSG,3,111,11111,3C49CC,111111,,,,,,24400,,,,,,,,,,'') \<and> parts_of ''MSG,3,111,11111,3C49CC,111111,,,,,,24400,,,,,,,,,,'' ! 10 \<noteq> [])"
    by (simp add: ev)
  have h3: "\<not> (21 < length (parts_of ''MSG,3,111,11111,3C49CC,111111,,,,,,24400,,,,,,,,,,'') \<and> parts_of ''MSG,3,111,11111,3C49CC,111111,,,,,,24400,,,,,,,,,,'' ! 21 \<noteq> []) \<and> \<not> (length (parts_of ''MSG,3,111,11111,3C49CC,111111,,,,,,24400,,,,,,,,,,'') = 21 \<and> parts_of ''MSG,3,111,11111,3C49CC,111111,,,,,,24400,,,,,,,,,,'' ! 20 \<noteq> [])"
    by (simp add: ev)
  have h4: "on_ground (init_message\<lparr>on_ground := Some True\<rparr>) \<noteq> None \<and> \<not> (21 < length (parts_of ''MSG,3,111,11111,3C49CC,111111,,,,,,24400,,,,,,,,,,0'') \<and> parts_of ''MSG,3,111,11111,3C49CC,111111,,,,,,24400,,,,,,,,,,0'' ! 21 \<noteq> [] \<and> parse_bool (parts_of ''MSG,3,111,11111,3C49CC,111111,,,,,,24400,,,,,,,,,,0'' ! 21) = None)
            \<and> \<not> (length (parts_of ''MSG,3,111,11111,3C49CC,111111,,,,,,24400,,,,,,,,,,0'') = 21 \<and> parts_of ''MSG,3,111,11111,3C49CC,111111,,,,,,24400,,,,,,,,,,0'' ! 20 \<noteq> [] \<and> parse_bool (parts_of ''MSG,3,111,11111,3C49CC,111111,,,,,,24400,,,,,,,,,,0'' ! 20) = None)"
    by (simp add: ev)
  have h5: "parts_of ''MSG,3,111,11111,3C49CC,111111,,,,,,24400,,,,,,,,,,0'' ! 21 = ''0''"
    by (simp add: ev)
  have "session_id (state_of (parse_string (init_message\<lparr>session_id := Some 5, callsign := Some ''OLD'', on_ground := Some True\<rparr>) ''MSG,3,111,11111,3C49CC,111111,,,,,,24400,,,,,,,,,,'')) = session_id (init_message\<lparr>session_id := Some 5, callsign := Some ''OLD'', on_ground := Some True\<rparr>)"
    using t [THEN conjunct2, THEN conjunct2, THEN conjunct1] h1 by (rule mp)
  moreover have "callsign (state_of (parse_string (init_message\<lparr>session_id := Some 5, callsign := Some ''OLD'', on_ground := Some True\<rparr>) ''MSG,3,111,11111,3C49CC,111111,,,,,,24400,,,,,,,,,,'')) = callsign (init_message\<lparr>session_id := Some 5, callsign := Some ''OLD'', on_ground := Some True\<rparr>)"
    using t [THEN conjunct2, THEN conjunct2, THEN conjunct2, THEN conjunct2, THEN conjunct2, THEN conjunct2, THEN conjunct2, THEN conjunct2, THEN conjunct1] h2 by (rule mp)
  moreover have "on_ground (state_of (parse_string (init_message\<lparr>session_id := Some 5, callsign := Some ''OLD'', on_ground := Some True\<rparr>) ''MSG,3,111,11111,3C49CC,111111,,,,,,24400,,,,,,,,,,'')) = on_ground (init_message\<lparr>session_id := Some 5, callsign := Some ''OLD'', on_ground := Some True\<rparr>)"
    using t [THEN conjunct2, THEN conjunct2, THEN conjunct2, THEN conjunct2, THEN conjunct2, THEN conjunct2, THEN conjunct2, THEN conjunct2, THEN conjunct2, THEN conjunct2, THEN conjunct2, THEN conjunct2, THEN conjunct2, THEN conjunct2, THEN conjunct2, THEN conjunct2, THEN conjunct2, THEN conjunct2, THEN conjunct2, THEN conjunct1] h3 by (rule mp)
  moreover have "on_ground (state_of (parse_string (init_message\<lparr>on_ground := Some True\<rparr>) ''MSG,3,111,11111,3C49CC,111111,,,,,,24400,,,,,,,,,,0'')) \<noteq> None"
    using t2 [THEN conjunct2, THEN conjunct2, THEN conjunct2, THEN conjunct2, THEN conjunct2, THEN conjunct2, THEN conjunct2, THEN conjunct2, THEN conjunct2, THEN conjunct2, THEN conjunct2, THEN conjunct2, THEN conjunct2, THEN conjunct2, THEN conjunct2, THEN conjunct2, THEN conjunct2, THEN conjunct2, THEN conjunct2, THEN conjunct2, THEN conjunct2, THEN conjunct2, THEN conjunct2, THEN conjunct2, THEN conjunct2, THEN conjunct2, THEN conjunct2, THEN conjunct2, THEN conjunct2, THEN conjunct2, THEN conjunct2, THEN conjunct2, THEN conjunct2, THEN conjunct2, THEN conjunct2, THEN conjunct2, THEN conjunct2, THEN conjunct2, THEN conjunct2] h4 by (rule mp)
  ultimately show ?thesis using h1 h2 h3 h5 by (simp add: init_message_def)
qed

end
